theory Spec2Isabelle
  imports Complex_Main "HOL-Library.Word"
begin

section \<open>Buffers, hexadecimal strings and big-endian integers\<close>

text \<open>
  The pool of \<^verbatim>\<open>src/ironfish/src/mining/pool.ts\<close> handles Node.js buffers
  (byte arrays), their hexadecimal string form and JavaScript \<^verbatim>\<open>bigint\<close>
  values.  A buffer is a list of bytes, a \<^verbatim>\<open>bigint\<close> is an \<^typ>\<open>int\<close>.
  A JavaScript \<^verbatim>\<open>number\<close> that the code only uses as a counter or a time
  stamp in milliseconds is an \<^typ>\<open>int\<close> too: such numbers are exact below
  \<open>2 ^ 53\<close>, and the request counter starts at 0 and grows by one for each
  published piece of work.
\<close>

type_synonym byte = "8 word"
type_synonym buffer = "byte list"

text \<open>Node's \<^verbatim>\<open>buf.toString('hex')\<close>: two lower-case digits for each byte.\<close>

definition hex_digit :: "nat \<Rightarrow> char" where
  "hex_digit n = ''0123456789abcdef'' ! n"

definition toString_hex :: "buffer \<Rightarrow> string" where
  "toString_hex bs = concat (map (\<lambda>b. [hex_digit (unat b div 16), hex_digit (unat b mod 16)]) bs)"

text \<open>
  Node's \<^verbatim>\<open>Buffer.from(s, 'hex')\<close>: pairs of hexadecimal digits (either case)
  are decoded from the left; decoding stops at the first pair that is not
  hexadecimal, and a single trailing character is dropped.
\<close>

definition hex_val :: "char \<Rightarrow> nat option" where
  "hex_val c = map_of (zip ''0123456789abcdef'' [0..<16] @ zip ''ABCDEF'' [10..<16]) c"

fun Buffer_from_hex :: "string \<Rightarrow> buffer" where
  "Buffer_from_hex (c1 # c2 # cs) =
     (case hex_val c1 of
        None \<Rightarrow> []
      | Some a \<Rightarrow>
          (case hex_val c2 of
             None \<Rightarrow> []
           | Some b \<Rightarrow> of_nat (16 * a + b) # Buffer_from_hex cs))"
| "Buffer_from_hex cs = []"

text \<open>
  Node's \<^verbatim>\<open>a.compare(b)\<close>: the bytes are compared from the left as unsigned
  numbers; when one buffer is a prefix of the other the shorter one is the
  smaller.  The result is \<open>-1\<close>, \<open>0\<close> or \<open>1\<close>.
\<close>

fun Buffer_compare :: "buffer \<Rightarrow> buffer \<Rightarrow> int" where
  "Buffer_compare [] [] = 0"
| "Buffer_compare [] (y # ys) = - 1"
| "Buffer_compare (x # xs) [] = 1"
| "Buffer_compare (x # xs) (y # ys) =
     (if x < y then - 1 else if y < x then 1 else Buffer_compare xs ys)"

text \<open>
  Modelled from the spec: \<^verbatim>\<open>BigIntUtils.fromBytes\<close> and
  \<^verbatim>\<open>BigIntUtils.toBytesBE\<close> (\<^verbatim>\<open>src/utils/bigint.ts\<close> is not part of
  the sources at hand).  The spec calls a target a ``32-byte big-endian unsigned
  integer'': \<open>fromBytes\<close> reads a buffer as a big-endian unsigned number and
  \<open>toBytesBE v size\<close> writes the \<open>size\<close> low bytes of \<open>v\<close>, the most
  significant one first.
\<close>

fun fromBytes :: "buffer \<Rightarrow> int" where
  "fromBytes [] = 0"
| "fromBytes (b # bs) = uint b * 256 ^ length bs + fromBytes bs"

fun toBytesBE :: "int \<Rightarrow> nat \<Rightarrow> buffer" where
  "toBytesBE v 0 = []"
| "toBytesBE v (Suc n) = word_of_int (v div 256 ^ n) # toBytesBE v n"


section \<open>Data of the pool\<close>

text \<open>
  A serialized block template and its header.  The pool reads and writes the
  fields \<^verbatim>\<open>previousBlockHash\<close>, \<^verbatim>\<open>target\<close>, \<^verbatim>\<open>timestamp\<close>,
  \<^verbatim>\<open>randomness\<close> and \<^verbatim>\<open>graffiti\<close> of the header; everything else is
  carried along unchanged (\<open>hdr_rest\<close>, \<open>tpl_rest\<close>).  A template that
  comes from the node's stream may carry \<^verbatim>\<open>previousBlockInfo\<close>, the target
  (hexadecimal) and the time stamp of the block it builds on.
\<close>

record blockHeader =
  hdr_previousBlockHash :: string
  hdr_target :: string
  hdr_timestamp :: int
  hdr_randomness :: string
  hdr_graffiti :: string
  hdr_rest :: string

record blockTemplate =
  header :: blockHeader
  tpl_rest :: string
  previousBlockInfo :: "(string \<times> int) option"

text \<open>A client of the stratum server; address and graffiti are \<^verbatim>\<open>null\<close> until set.\<close>

record stratumClient =
  client_id :: int
  publicAddress :: "string option"
  graffiti :: "buffer option"
  subscribed :: bool

record config =
  poolName :: string
  poolDifficulty :: int
  poolStatusNotificationInterval :: int

record addressStatus =
  as_publicAddress :: string
  as_hashRate :: real
  as_miners :: nat
  as_sharesPending :: int

record miningStatusMessage =
  st_name :: string
  st_hashRate :: real
  st_miners :: nat
  st_sharesPending :: int
  st_banCount :: nat
  st_addressStatus :: "addressStatus option"

text \<open>
  Everything the pool does to its collaborators (logger, node client, share
  subsystem, stratum server, webhooks, timers) is recorded, in order, as a list
  of effects.  A call \<^verbatim>\<open>this.webhooks.map((w) => w.f())\<close> is one
  \<open>Webhooks\<close> effect: the notification handed to every configured notifier.
\<close>

datatype logLevel = Debug | Info | Warn | Error

datatype message =
    StaleMiningRequest int int
  | InvalidMiningRequest int int
  | DuplicateMiningRequest int int string
  | ValidBlock
  | BlockSubmitted string real
  | BlockRejected string
  | ValidPoolShare
  | StoppingPool
  | StartingStratum
  | ConnectingToNode
  | FailedToConnect
  | ConnectedToNode
  | ListeningForBlocks
  | FatalError
  | RenderedError
  | DisconnectedFromNode
  | RecalculatingTarget
  | SameTarget int
  | TargetRecalculated string
  | StatusMessage miningStatusMessage

datatype webhook =
    PoolConnected
  | PoolDisconnected
  | PoolSubmittedBlock string real nat
  | PoolStatus miningStatusMessage

datatype effect =
    Log logLevel message
  | Rpc_tryConnect
  | Rpc_close
  | Rpc_onClose_on
  | Rpc_onClose_off
  | Rpc_blockTemplateStream
  | Rpc_submitBlock blockTemplate
  | Shares_start
  | Shares_stop
  | Shares_submitShare string
  | Stratum_start
  | Stratum_stop
  | Stratum_newWork int blockTemplate
  | Stratum_waitForWork
  | Peers_punish int
  | Webhooks webhook
  | StopResolve
  | SetTimeout_startConnectingRpc nat
  | SetInterval_recalculateTarget nat
  | SetInterval_notifyStatus int
  | ClearTimeout_connect
  | ClearInterval_recalculateTarget
  | ClearInterval_notifyStatus


text \<open>
  Modelled from the spec: the work cache \<^verbatim>\<open>LeastRecentlyUsed\<close> (package
  \<^verbatim>\<open>blru\<close>, not part of the sources at hand): ``a bounded LRU from
  requestId to BlockTemplate, capacity 12.  Writes never fail; reads are
  Some(template) or None.  Eviction is strictly by recency of insertion (read
  access does not count).''  The entries are kept newest first.
\<close>

record 'v lru =
  capacity :: nat
  entries :: "(int \<times> 'v) list"

definition LeastRecentlyUsed_new :: "nat \<Rightarrow> 'v lru" where
  "LeastRecentlyUsed_new n = \<lparr>capacity = n, entries = []\<rparr>"

definition lru_get :: "'v lru \<Rightarrow> int \<Rightarrow> 'v option" where
  "lru_get c k = map_of (entries c) k"

definition lru_set :: "'v lru \<Rightarrow> int \<Rightarrow> 'v \<Rightarrow> 'v lru" where
  "lru_set c k v =
     c\<lparr>entries := take (capacity c) ((k, v) # filter (\<lambda>kv. fst kv \<noteq> k) (entries c))\<rparr>"

text \<open>
  The state of a \<^verbatim>\<open>MiningPool\<close>.  Block templates are JavaScript objects:
  the work cache holds references, and \<^verbatim>\<open>recalculateTarget\<close> writes to the
  header of the cached object.  The templates therefore live in a store
  (\<open>heap\<close>, with \<open>heap_next\<close> the next unused address) and the cache maps a
  mining request id to an address.  A timer field is \<open>True\<close> when it holds a
  token.
\<close>

type_synonym addr = nat

record pool =
  config_of :: config
  started :: bool
  stopResolve :: bool
  connectWarned :: bool
  connectTimeout :: bool
  name :: string
  nextMiningRequestId :: int
  miningRequestBlocks :: "addr lru"
  recentSubmissions :: "int \<rightharpoonup> string list"
  difficulty :: int
  target :: buffer
  currentHeadTimestamp :: "int option"
  currentHeadDifficulty :: "int option"
  recalculateTargetInterval :: bool
  notifyStatusInterval :: bool
  heap :: "addr \<Rightarrow> blockTemplate"
  heap_next :: addr
  effects :: "effect list"

text \<open>
  What the pool asks of code outside \<^verbatim>\<open>pool.ts\<close>, as functions of the
  arguments of the call:
  \<^item> \<open>blake3\<close>, the hash of \<^verbatim>\<open>@napi-rs/blake-hash\<close>;
  \<^item> \<open>mineableHeaderString\<close> of \<^verbatim>\<open>mining/utils\<close>, \<open>None\<close> when it throws;
  \<^item> the node's answer to \<^verbatim>\<open>rpc.submitBlock\<close> (\<open>added\<close> and \<open>reason\<close>);
  \<^item> \<open>shareRate\<close> and \<open>sharesPendingPayout\<close> of the share subsystem;
  \<^item> for each of the awaited calls \<^verbatim>\<open>rpc.submitBlock\<close>,
    \<^verbatim>\<open>shares.shareRate\<close>, \<^verbatim>\<open>shares.sharesPendingPayout\<close> and
    \<^verbatim>\<open>shares.submitShare\<close>, whether the promise is rejected instead of
    answered (\<open>\<dots>_rejects\<close>); the pool catches none of these rejections;
  \<^item> \<open>Target.fromDifficulty(d).asBigInt()\<close>, \<open>Target.calculateDifficulty\<close> and
    \<open>new Target(buffer).toDifficulty()\<close> of \<^verbatim>\<open>primitives/target\<close>;
  \<^item> the clients of the stratum server and its ban count;
  \<^item> \<open>rnd\<close>, the rounding of a real number to a JavaScript \<^verbatim>\<open>number\<close>
    (a double), applied wherever the code computes with doubles.
\<close>

record env =
  blake3 :: "buffer \<Rightarrow> buffer"
  mineableHeaderString :: "blockHeader \<Rightarrow> buffer option"
  submitBlock_added :: "blockTemplate \<Rightarrow> bool"
  submitBlock_reason :: "blockTemplate \<Rightarrow> string"
  submitBlock_rejects :: "blockTemplate \<Rightarrow> bool"
  shareRate :: "string option \<Rightarrow> real"
  shareRate_rejects :: "string option \<Rightarrow> bool"
  sharesPendingPayout :: "string option \<Rightarrow> int"
  sharesPendingPayout_rejects :: "string option \<Rightarrow> bool"
  submitShare_rejects :: "string \<Rightarrow> bool"
  Target_fromDifficulty :: "int \<Rightarrow> int"
  Target_calculateDifficulty :: "int \<Rightarrow> int \<Rightarrow> int \<Rightarrow> int"
  Target_toDifficulty :: "buffer \<Rightarrow> int"
  clients :: "stratumClient list"
  banCount :: nat
  rnd :: "real \<Rightarrow> real"

text \<open>
  The assertions of \<^verbatim>\<open>Assert\<close> throw, and an awaited call whose promise is
  rejected throws at the \<^verbatim>\<open>await\<close>.  An operation that can throw ends as
  \<open>Returned\<close> with the state it leaves, or as \<open>Thrown\<close> with the error and
  the state at the moment of the throw.
\<close>

datatype error = AssertionError | PromiseRejected

datatype outcome = Returned pool | Thrown error pool

definition emit :: "effect list \<Rightarrow> pool \<Rightarrow> pool" where
  "emit es p = p\<lparr>effects := effects p @ es\<rparr>"

text \<open>A blank template fills the unused cells of the store.\<close>

definition blank_template :: blockTemplate where
  "blank_template =
     \<lparr>header = \<lparr>hdr_previousBlockHash = [], hdr_target = [], hdr_timestamp = 0,
                 hdr_randomness = [], hdr_graffiti = [], hdr_rest = []\<rparr>,
      tpl_rest = [], previousBlockInfo = None\<rparr>"

section \<open>The operations of the pool\<close>

text \<open>The constructor (lines 56--97).\<close>

definition MiningPool_new :: "env \<Rightarrow> config \<Rightarrow> pool" where
  "MiningPool_new e cfg =
     \<lparr>config_of = cfg,
      started = False,
      stopResolve = False,
      connectWarned = False,
      connectTimeout = False,
      name = poolName cfg,
      nextMiningRequestId = 0,
      miningRequestBlocks = LeastRecentlyUsed_new 12,
      recentSubmissions = Map.empty,
      difficulty = poolDifficulty cfg,
      target = toBytesBE (Target_fromDifficulty e (poolDifficulty cfg)) 32,
      currentHeadTimestamp = None,
      currentHeadDifficulty = None,
      recalculateTargetInterval = False,
      notifyStatusInterval = False,
      heap = (\<lambda>a. blank_template),
      heap_next = 0,
      effects = []\<rparr>"

text \<open>
  \<^verbatim>\<open>startConnectingRpc\<close> (lines 278--310) awaits \<^verbatim>\<open>rpc.tryConnect()\<close>
  first.  The model has the two halves: the call, and the rest of the function,
  which runs later with the answer \<open>isConnected\<close> (the \<^verbatim>\<open>connected\<close>
  of the source) on the state the pool has by
  then.  On success the function starts \<^verbatim>\<open>processNewBlocks\<close>, which opens the
  template stream.
\<close>

definition startConnectingRpc_call :: "pool \<Rightarrow> pool" where
  "startConnectingRpc_call p = emit [Rpc_tryConnect] p"

definition startConnectingRpc_resume :: "bool \<Rightarrow> pool \<Rightarrow> pool" where
  "startConnectingRpc_resume isConnected p =
     (if \<not> started p then p
      else if \<not> isConnected then
        (let p1 = (if \<not> connectWarned p
                   then (emit [Log Warn FailedToConnect] p)\<lparr>connectWarned := True\<rparr>
                   else p)
         in emit [SetTimeout_startConnectingRpc 5000] (p1\<lparr>connectTimeout := True\<rparr>))
      else
        (let p1 = (if isConnected then emit [Webhooks PoolConnected] p else p);
             p2 = p1\<lparr>connectWarned := False\<rparr>
         in emit [Log Info ConnectedToNode, Log Info ListeningForBlocks,
                  Rpc_blockTemplateStream] p2))"

text \<open>\<^verbatim>\<open>onDisconnectRpc\<close> (lines 312--319), the handler of the node's close signal.\<close>

definition onDisconnectRpc :: "pool \<Rightarrow> pool" where
  "onDisconnectRpc p =
     startConnectingRpc_call
       (emit [Stratum_waitForWork, Log Info DisconnectedFromNode, Webhooks PoolDisconnected] p)"

text \<open>
  \<^verbatim>\<open>start\<close> (lines 131--159) and \<^verbatim>\<open>stop\<close> (lines 161--190).  Each awaits
  the share subsystem once; nothing of the pool is read or written by the share
  subsystem, so each is one step here.  The two functions are modelled for a
  share subsystem that starts and stops; neither touches the request counter,
  the work cache or the deduper on any path.
\<close>

definition start :: "pool \<Rightarrow> pool" where
  "start p =
     (if started p then p
      else
        (let p1 = p\<lparr>stopResolve := True, started := True\<rparr>;
             p2 = emit [Shares_start, Log Info StartingStratum, Stratum_start,
                        Log Info ConnectingToNode, Rpc_onClose_on] p1;
             statusInterval = poolStatusNotificationInterval (config_of p2);
             p3 = (if statusInterval > 0
                   then emit [SetInterval_notifyStatus (statusInterval * 1000)]
                          (p2\<lparr>notifyStatusInterval := True\<rparr>)
                   else p2)
         in startConnectingRpc_call p3))"

definition stop :: "pool \<Rightarrow> pool" where
  "stop p =
     (if \<not> started p then p
      else
        (let p1 = emit [Log Debug StoppingPool] p;
             p2 = p1\<lparr>started := False\<rparr>;
             p3 = emit [Rpc_onClose_off, Rpc_close, Stratum_stop, Shares_stop] p2;
             p4 = (if stopResolve p3 then emit [StopResolve] p3 else p3);
             p5 = (if connectTimeout p4 then emit [ClearTimeout_connect] p4 else p4);
             p6 = (if recalculateTargetInterval p5
                   then emit [ClearInterval_recalculateTarget] p5 else p5)
         in (if notifyStatusInterval p6 then emit [ClearInterval_notifyStatus] p6 else p6)))"

definition getTarget :: "pool \<Rightarrow> string" where
  "getTarget p = toString_hex (target p)"

text \<open>The deduper (lines 391--407).\<close>

definition isDuplicateSubmission :: "pool \<Rightarrow> int \<Rightarrow> string \<Rightarrow> bool" where
  "isDuplicateSubmission p clientId randomness =
     (case recentSubmissions p clientId of
        None \<Rightarrow> False
      | Some submissions \<Rightarrow> randomness \<in> set submissions)"

definition addWorkSubmission :: "int \<Rightarrow> string \<Rightarrow> pool \<Rightarrow> pool" where
  "addWorkSubmission clientId randomness p =
     (case recentSubmissions p clientId of
        None \<Rightarrow> p\<lparr>recentSubmissions := (recentSubmissions p)(clientId \<mapsto> [randomness])\<rparr>
      | Some submissions \<Rightarrow>
          p\<lparr>recentSubmissions := (recentSubmissions p)(clientId \<mapsto> submissions @ [randomness])\<rparr>)"

text \<open>
  \<^verbatim>\<open>estimateHashRate\<close> (lines 409--417).  \<^verbatim>\<open>shareRate * decimalPrecision\<close>
  is a product of doubles, \<^verbatim>\<open>Math.floor\<close> and \<^verbatim>\<open>BigInt\<close> are exact, the
  product with the difficulty is a product of big integers, \<^verbatim>\<open>Number\<close>
  rounds it to a double and the division is one of doubles.  This is the
  number the function gives when \<^verbatim>\<open>shares.shareRate\<close> answers; when that
  promise is rejected (\<open>shareRate_rejects\<close>) the function throws instead.
\<close>

definition decimalPrecision :: real where
  "decimalPrecision = 1000000"

definition estimateHashRate :: "env \<Rightarrow> pool \<Rightarrow> string option \<Rightarrow> real" where
  "estimateHashRate e p address =
     rnd e (rnd e (of_int (\<lfloor>rnd e (shareRate e address * decimalPrecision)\<rfloor> * difficulty p))
            / decimalPrecision)"


text \<open>
  \<^verbatim>\<open>distributeNewBlock\<close> (lines 370--379).  \<open>newBlock\<close> is the address of
  the template object.  The stratum server holds a reference to the pool, so the
  order of the four statements after the assertions matters to it:
  \<open>distributeNewBlock_steps\<close> lists the states of the pool after each of the
  four statements, in the order of the source (line 374, 375, 376, 378), and
  the function returns the last of them.  The call of the stratum server hands
  over the template as it is in the store at that moment.
\<close>

definition stratum_newWork :: "int \<Rightarrow> addr \<Rightarrow> pool \<Rightarrow> pool" where
  "stratum_newWork miningRequestId newBlock p =
     emit [Stratum_newWork miningRequestId (heap p newBlock)] p"

definition distributeNewBlock_steps :: "addr \<Rightarrow> pool \<Rightarrow> pool list" where
  "distributeNewBlock_steps newBlock p =
     (let miningRequestId = nextMiningRequestId p;
          p1 = p\<lparr>nextMiningRequestId := nextMiningRequestId p + 1\<rparr>;
          p2 = p1\<lparr>miningRequestBlocks :=
                    lru_set (miningRequestBlocks p1) miningRequestId newBlock\<rparr>;
          p3 = p2\<lparr>recentSubmissions := Map.empty\<rparr>;
          p4 = stratum_newWork miningRequestId newBlock p3
      in [p1, p2, p3, p4])"

definition distributeNewBlock :: "addr \<Rightarrow> pool \<Rightarrow> outcome" where
  "distributeNewBlock newBlock p =
     (if currentHeadTimestamp p = None then Thrown AssertionError p
      else if currentHeadDifficulty p = None then Thrown AssertionError p
      else Returned (last (distributeNewBlock_steps newBlock p)))"

text \<open>\<^verbatim>\<open>restartCalculateTargetInterval\<close> (lines 381--389).\<close>

definition RECALCULATE_TARGET_TIMEOUT :: nat where
  "RECALCULATE_TARGET_TIMEOUT = 10000"

definition restartCalculateTargetInterval :: "pool \<Rightarrow> pool" where
  "restartCalculateTargetInterval p =
     (let p1 = (if recalculateTargetInterval p
                then emit [ClearInterval_recalculateTarget] p else p)
      in emit [SetInterval_recalculateTarget RECALCULATE_TARGET_TIMEOUT]
           (p1\<lparr>recalculateTargetInterval := True\<rparr>))"

text \<open>
  \<^verbatim>\<open>processNewBlocks\<close> (lines 321--332): the body of the loop for one
  payload of the stream, a fresh object that is stored at the next unused
  address, and the handler that \<^verbatim>\<open>startConnectingRpc\<close> attaches for an error
  of the loop (lines 305--309).
\<close>

definition processNewBlocks_payload :: "env \<Rightarrow> blockTemplate \<Rightarrow> pool \<Rightarrow> outcome" where
  "processNewBlocks_payload e payload p =
     (case previousBlockInfo payload of
        None \<Rightarrow> Thrown AssertionError p
      | Some info \<Rightarrow>
          (let p1 = restartCalculateTargetInterval p;
               p2 = p1\<lparr>currentHeadDifficulty :=
                         Some (Target_toDifficulty e (Buffer_from_hex (fst info)))\<rparr>;
               p3 = p2\<lparr>currentHeadTimestamp := Some (snd info)\<rparr>;
               newBlock = heap_next p3;
               p4 = p3\<lparr>heap := (heap p3)(newBlock := payload), heap_next := newBlock + 1\<rparr>
           in distributeNewBlock newBlock p4))"

definition processNewBlocks_catch :: "pool \<Rightarrow> pool" where
  "processNewBlocks_catch p = stop (emit [Log Error FatalError, Log Error RenderedError] p)"

text \<open>
  \<^verbatim>\<open>recalculateTarget\<close> (lines 334--368), the callback of the interval timer;
  \<open>newTime\<close> is the clock (\<^verbatim>\<open>new Date()\<close>) in milliseconds.
\<close>

definition recalculateTarget :: "env \<Rightarrow> int \<Rightarrow> pool \<Rightarrow> outcome" where
  "recalculateTarget e newTime p =
     (let p0 = emit [Log Debug RecalculatingTarget] p
      in case currentHeadTimestamp p0 of
           None \<Rightarrow> Thrown AssertionError p0
         | Some headTimestamp \<Rightarrow>
        (case currentHeadDifficulty p0 of
           None \<Rightarrow> Thrown AssertionError p0
         | Some headDifficulty \<Rightarrow>
        (case lru_get (miningRequestBlocks p0) (nextMiningRequestId p0 - 1) of
           None \<Rightarrow> Thrown AssertionError p0
         | Some latestBlock \<Rightarrow>
          (let newTarget = Target_fromDifficulty e
                 (Target_calculateDifficulty e newTime headTimestamp headDifficulty);
               existingTarget =
                 fromBytes (Buffer_from_hex (hdr_target (header (heap p0 latestBlock))))
           in if newTarget = existingTarget
              then Returned (emit [Log Debug (SameTarget newTarget)] p0)
              else
                (let t = heap p0 latestBlock;
                     t1 = t\<lparr>header := (header t)\<lparr>hdr_target :=
                             toString_hex (toBytesBE newTarget 32)\<rparr>\<rparr>;
                     t2 = t1\<lparr>header := (header t1)\<lparr>hdr_timestamp := newTime\<rparr>\<rparr>;
                     p1 = p0\<lparr>heap := (heap p0)(latestBlock := t2)\<rparr>
                 in case distributeNewBlock latestBlock p1 of
                      Thrown err q \<Rightarrow> Thrown err q
                    | Returned p2 \<Rightarrow>
                        Returned (emit [Log Debug (TargetRecalculated
                          (hdr_previousBlockHash (header (heap p2 latestBlock))))] p2))))))"

text \<open>
  \<^verbatim>\<open>submitWork\<close> (lines 200--276).  The copy of the template and of its
  header (lines 223--224) is the value \<open>blockTemplate\<close>; the cached object in
  the store is not written.  The function awaits the node's answer to
  \<^verbatim>\<open>submitBlock\<close> (line 253), the share rate inside
  \<^verbatim>\<open>estimateHashRate\<close> (line 256) and \<^verbatim>\<open>submitShare\<close> (line 274), none
  of them inside a \<^verbatim>\<open>try\<close>: when one of these promises is rejected the
  function throws there, with the effects up to and including that call, and
  what follows in the source is not run.  After the first \<^verbatim>\<open>await\<close> the
  function reads only \<^verbatim>\<open>this.target\<close>, \<^verbatim>\<open>this.difficulty\<close> and the size
  of the client set, and it writes nothing, so it is one step here.
  \<open>blockCheck\<close> is the outcome of lines 250--270.
\<close>

definition submitWork :: "env \<Rightarrow> stratumClient \<Rightarrow> int \<Rightarrow> string \<Rightarrow> pool \<Rightarrow> outcome" where
  "submitWork e client miningRequestId randomness p =
     (case publicAddress client of
        None \<Rightarrow> Thrown AssertionError p
      | Some address \<Rightarrow>
     (case graffiti client of
        None \<Rightarrow> Thrown AssertionError p
      | Some clientGraffiti \<Rightarrow>
     (if miningRequestId \<noteq> nextMiningRequestId p - 1
      then Returned (emit [Log Debug (StaleMiningRequest (client_id client) miningRequestId)] p)
      else
     (case lru_get (miningRequestBlocks p) miningRequestId of
        None \<Rightarrow>
          Returned (emit [Log Warn (InvalidMiningRequest (client_id client) miningRequestId)] p)
      | Some cached \<Rightarrow>
     (let originalBlockTemplate = heap p cached
      in if isDuplicateSubmission p (client_id client) randomness
         then Returned (emit [Log Warn (DuplicateMiningRequest (client_id client)
                                miningRequestId randomness)] p)
         else
     (let p1 = addWorkSubmission (client_id client) randomness p;
          h1 = (header originalBlockTemplate)\<lparr>hdr_graffiti := toString_hex clientGraffiti\<rparr>;
          h2 = h1\<lparr>hdr_randomness := randomness\<rparr>;
          blockTemplate = originalBlockTemplate\<lparr>header := h2\<rparr>
      in case mineableHeaderString e (header blockTemplate) of
           None \<Rightarrow> Returned (emit [Peers_punish (client_id client)] p1)
         | Some headerBytes \<Rightarrow>
     (let hashedHeader = blake3 e headerBytes;
          blockCheck =
            (if Buffer_compare hashedHeader
                  (Buffer_from_hex (hdr_target (header blockTemplate))) \<noteq> 1
             then
               (let q = emit [Log Debug ValidBlock, Rpc_submitBlock blockTemplate] p1
                in if submitBlock_rejects e blockTemplate then Thrown PromiseRejected q
                   else if submitBlock_added e blockTemplate
                   then
                     (if shareRate_rejects e None then Thrown PromiseRejected q
                      else
                        (let hashRate = estimateHashRate e q None;
                             hashedHeaderHex = toString_hex hashedHeader
                         in Returned
                              (emit [Log Info (BlockSubmitted hashedHeaderHex hashRate),
                                     Webhooks (PoolSubmittedBlock hashedHeaderHex hashRate
                                                (length (clients e)))] q)))
                   else Returned
                          (emit [Log Info (BlockRejected (submitBlock_reason e blockTemplate))] q))
             else Returned p1)
      in case blockCheck of
           Thrown err q \<Rightarrow> Thrown err q
         | Returned p2 \<Rightarrow>
             (if Buffer_compare hashedHeader (target p2) \<noteq> 1
              then
                (let q = emit [Log Debug ValidPoolShare, Shares_submitShare address] p2
                 in if submitShare_rejects e address then Thrown PromiseRejected q
                    else Returned q)
              else Returned p2))))))))"

text \<open>
  \<^verbatim>\<open>getStatus\<close> (lines 425--467) and \<^verbatim>\<open>notifyStatus\<close> (lines 419--423).
  \<open>getStatus\<close> is the message when the share subsystem answers all its
  calls, \<open>getStatus_rejects\<close> tells when one of them is rejected, and then
  \<^verbatim>\<open>notifyStatus\<close> throws before it has logged or notified anything.
\<close>

definition getStatus :: "env \<Rightarrow> pool \<Rightarrow> string option \<Rightarrow> miningStatusMessage" where
  "getStatus e p address =
     (let hashRate = estimateHashRate e p None;
          sharesPending = sharesPendingPayout e None;
          minerCount = length (filter subscribed (clients e));
          addressMinerCount =
            length (filter (\<lambda>c. subscribed c \<and>
              (case address of None \<Rightarrow> False | Some a \<Rightarrow> publicAddress c = Some a)) (clients e));
          status = \<lparr>st_name = name p, st_hashRate = hashRate, st_miners = minerCount,
                    st_sharesPending = sharesPending, st_banCount = banCount e,
                    st_addressStatus = None\<rparr>
      in case address of
           None \<Rightarrow> status
         | Some a \<Rightarrow>
             (if a = [] then status
              else status\<lparr>st_addressStatus := Some
                     \<lparr>as_publicAddress = a,
                      as_hashRate = estimateHashRate e p (Some a),
                      as_miners = addressMinerCount,
                      as_sharesPending = sharesPendingPayout e (Some a)\<rparr>\<rparr>))"

definition getStatus_rejects :: "env \<Rightarrow> string option \<Rightarrow> bool" where
  "getStatus_rejects e address \<longleftrightarrow>
     shareRate_rejects e None \<or> sharesPendingPayout_rejects e None \<or>
     (case address of
        None \<Rightarrow> False
      | Some a \<Rightarrow>
          a \<noteq> [] \<and> (shareRate_rejects e (Some a) \<or> sharesPendingPayout_rejects e (Some a)))"

definition notifyStatus :: "env \<Rightarrow> pool \<Rightarrow> outcome" where
  "notifyStatus e p =
     (if getStatus_rejects e None then Thrown PromiseRejected p
      else
        (let status = getStatus e p None
         in Returned (emit [Log Debug (StatusMessage status), Webhooks (PoolStatus status)] p)))"

section \<open>Histories\<close>

text \<open>
  Everything that can happen to a pool after its construction: a call of
  \<^verbatim>\<open>start\<close>, \<^verbatim>\<open>stop\<close> or \<^verbatim>\<open>submitWork\<close>, the retry timer of the
  connection, the answer of \<^verbatim>\<open>tryConnect\<close>, the node's close signal, a
  payload of the template stream, the retarget timer (with the clock) and the
  status timer.  \<^verbatim>\<open>getTarget\<close>, \<^verbatim>\<open>waitForStop\<close>, \<^verbatim>\<open>estimateHashRate\<close> and
  \<^verbatim>\<open>getStatus\<close> only read.  An operation that throws leaves the state of the
  moment of the throw; an error of the stream loop runs its handler.
\<close>

datatype operation =
    Op_start
  | Op_stop
  | Op_submitWork stratumClient int string
  | Op_connectTimeout
  | Op_tryConnect bool
  | Op_onDisconnectRpc
  | Op_payload blockTemplate
  | Op_recalculateTarget int
  | Op_notifyStatus

fun state_of :: "outcome \<Rightarrow> pool" where
  "state_of (Returned p) = p"
| "state_of (Thrown err p) = p"

fun step :: "env \<Rightarrow> pool \<Rightarrow> operation \<Rightarrow> pool" where
  "step e p Op_start = start p"
| "step e p Op_stop = stop p"
| "step e p (Op_submitWork client miningRequestId randomness) =
     state_of (submitWork e client miningRequestId randomness p)"
| "step e p Op_connectTimeout = startConnectingRpc_call p"
| "step e p (Op_tryConnect isConnected) = startConnectingRpc_resume isConnected p"
| "step e p Op_onDisconnectRpc = onDisconnectRpc p"
| "step e p (Op_payload payload) =
     (case processNewBlocks_payload e payload p of
        Returned p' \<Rightarrow> p'
      | Thrown err p' \<Rightarrow> processNewBlocks_catch p')"
| "step e p (Op_recalculateTarget newTime) = state_of (recalculateTarget e newTime p)"
| "step e p Op_notifyStatus = state_of (notifyStatus e p)"

definition run :: "env \<Rightarrow> pool \<Rightarrow> operation list \<Rightarrow> pool" where
  "run e p ops = foldl (step e) p ops"


section \<open>Vocabulary of the properties\<close>

text \<open>
  What an operation has added to the effects, and, of a list of effects, the
  templates submitted to the node, the addresses credited with a share, the
  clients punished, the work broadcast and the webhook notifications.
\<close>

definition new_effects :: "pool \<Rightarrow> pool \<Rightarrow> effect list" where
  "new_effects p p' = drop (length (effects p)) (effects p')"

definition blocks_submitted :: "effect list \<Rightarrow> blockTemplate list" where
  "blocks_submitted es = concat (map (\<lambda>x. case x of Rpc_submitBlock t \<Rightarrow> [t] | _ \<Rightarrow> []) es)"

definition shares_credited :: "effect list \<Rightarrow> string list" where
  "shares_credited es = concat (map (\<lambda>x. case x of Shares_submitShare a \<Rightarrow> [a] | _ \<Rightarrow> []) es)"

definition clients_punished :: "effect list \<Rightarrow> int list" where
  "clients_punished es = concat (map (\<lambda>x. case x of Peers_punish c \<Rightarrow> [c] | _ \<Rightarrow> []) es)"

definition work_broadcast :: "effect list \<Rightarrow> (int \<times> blockTemplate) list" where
  "work_broadcast es =
     concat (map (\<lambda>x. case x of Stratum_newWork i t \<Rightarrow> [(i, t)] | _ \<Rightarrow> []) es)"

definition webhooks_notified :: "effect list \<Rightarrow> webhook list" where
  "webhooks_notified es = concat (map (\<lambda>x. case x of Webhooks w \<Rightarrow> [w] | _ \<Rightarrow> []) es)"

definition logged :: "logLevel \<Rightarrow> effect list \<Rightarrow> message list" where
  "logged l es =
     concat (map (\<lambda>x. case x of Log l' m \<Rightarrow> (if l' = l then [m] else []) | _ \<Rightarrow> []) es)"

text \<open>
  What holds of every pool that the constructor and the operations produce: the
  cache has capacity 12, its ids are ids of published work, the newest entry is
  the current work, and the pool target has 32 bytes.
\<close>

definition pool_inv :: "pool \<Rightarrow> bool" where
  "pool_inv p \<longleftrightarrow>
     capacity (miningRequestBlocks p) = 12 \<and>
     0 \<le> nextMiningRequestId p \<and>
     (\<forall>k \<in> fst ` set (entries (miningRequestBlocks p)). 0 \<le> k \<and> k < nextMiningRequestId p) \<and>
     (entries (miningRequestBlocks p) = [] \<longrightarrow> nextMiningRequestId p = 0) \<and>
     (entries (miningRequestBlocks p) \<noteq> [] \<longrightarrow>
        fst (hd (entries (miningRequestBlocks p))) = nextMiningRequestId p - 1) \<and>
     length (target p) = 32"

text \<open>
  Two states with the same work: counter, cache, store, pool target, difficulty
  and the head of the chain.
\<close>

definition same_work :: "pool \<Rightarrow> pool \<Rightarrow> bool" where
  "same_work p q \<longleftrightarrow>
     nextMiningRequestId q = nextMiningRequestId p \<and>
     miningRequestBlocks q = miningRequestBlocks p \<and>
     heap q = heap p \<and> target q = target p \<and> difficulty q = difficulty p \<and>
     currentHeadTimestamp q = currentHeadTimestamp p \<and>
     currentHeadDifficulty q = currentHeadDifficulty p"

text \<open>
  The block branch of \<^verbatim>\<open>submitWork\<close> (lines 250--270) is left by a
  throw when the node rejects \<^verbatim>\<open>submitBlock\<close>, or answers that the block
  was added and the share subsystem then rejects \<^verbatim>\<open>shareRate\<close>.
\<close>

definition block_branch_rejects :: "env \<Rightarrow> blockTemplate \<Rightarrow> bool" where
  "block_branch_rejects e t \<longleftrightarrow>
     submitBlock_rejects e t \<or> (submitBlock_added e t \<and> shareRate_rejects e None)"

text \<open>
  The operations that publish work: a payload of the stream that carries
  \<^verbatim>\<open>previousBlockInfo\<close>, and the retarget timer when the head of the chain is
  known, the current work is in the cache and the new target is not the one in
  its header.
\<close>

definition publishes_work :: "env \<Rightarrow> pool \<Rightarrow> operation \<Rightarrow> bool" where
  "publishes_work e p op =
     (case op of
        Op_payload payload \<Rightarrow> previousBlockInfo payload \<noteq> None
      | Op_recalculateTarget newTime \<Rightarrow>
          (case currentHeadTimestamp p of
             None \<Rightarrow> False
           | Some headTimestamp \<Rightarrow>
          (case currentHeadDifficulty p of
             None \<Rightarrow> False
           | Some headDifficulty \<Rightarrow>
          (case lru_get (miningRequestBlocks p) (nextMiningRequestId p - 1) of
             None \<Rightarrow> False
           | Some latestBlock \<Rightarrow>
               Target_fromDifficulty e
                 (Target_calculateDifficulty e newTime headTimestamp headDifficulty) \<noteq>
               fromBytes (Buffer_from_hex (hdr_target (header (heap p latestBlock)))))))
      | _ \<Rightarrow> False)"

text \<open>
  A step is quiet when it broadcasts no work and leaves the counter alone; it
  publishes when it broadcasts exactly one piece of work, under the id the
  counter had, and adds one to the counter.  The ids are in order when the work
  broadcast so far carries the ids \<open>0, 1, 2, \<dots>\<close> up to the counter.
\<close>

definition quiet :: "pool \<Rightarrow> pool \<Rightarrow> bool" where
  "quiet p q \<longleftrightarrow> (\<exists>es. effects q = effects p @ es \<and> work_broadcast es = []) \<and>
     nextMiningRequestId q = nextMiningRequestId p"

definition publishes :: "pool \<Rightarrow> pool \<Rightarrow> bool" where
  "publishes p q \<longleftrightarrow>
     (\<exists>es t. effects q = effects p @ es \<and> work_broadcast es = [(nextMiningRequestId p, t)]) \<and>
     nextMiningRequestId q = nextMiningRequestId p + 1"

definition ids_in_order :: "pool \<Rightarrow> bool" where
  "ids_in_order p \<longleftrightarrow> 0 \<le> nextMiningRequestId p \<and>
     map fst (work_broadcast (effects p)) = map int [0..<nat (nextMiningRequestId p)]"

text \<open>
  An outage of the node as the pool sees it: \<^verbatim>\<open>tryConnect\<close> answers
  \<open>false\<close>, and \<open>n\<close> more times the retry timer fires and the answer is
  \<open>false\<close> again.  The attempt that the first answer belongs to was started
  by \<^verbatim>\<open>start\<close> or by \<^verbatim>\<open>onDisconnectRpc\<close>.
\<close>

fun outage :: "nat \<Rightarrow> operation list" where
  "outage 0 = [Op_tryConnect False]"
| "outage (Suc n) = outage n @ [Op_connectTimeout, Op_tryConnect False]"

section \<open>An example pool\<close>

text \<open>
  A node, a configuration, a template of the stream and a subscribed client, and
  the pool after \<^verbatim>\<open>start\<close>, a successful connection and that first
  template.  Pool difficulty 1 makes the pool target \<open>2 ^ 256 - 1\<close>; the
  template's target is 20; the example hash always yields the digest 5; the
  example retarget halves the difficulty once a minute has passed since the head
  of the chain.
\<close>

definition example_env :: env where
  "example_env =
     \<lparr>blake3 = (\<lambda>bs. toBytesBE 5 32),
      mineableHeaderString = (\<lambda>h. if length (Buffer_from_hex (hdr_graffiti h)) = 2
         then Some (Buffer_from_hex (hdr_randomness h) @ Buffer_from_hex (hdr_graffiti h)) else None),
      submitBlock_added = (\<lambda>t. True),
      submitBlock_reason = (\<lambda>t. []),
      submitBlock_rejects = (\<lambda>t. False),
      shareRate = (\<lambda>a. 1 / 2),
      shareRate_rejects = (\<lambda>a. False),
      sharesPendingPayout = (\<lambda>a. 0),
      sharesPendingPayout_rejects = (\<lambda>a. False),
      submitShare_rejects = (\<lambda>a. False),
      Target_fromDifficulty = (\<lambda>d. (2 ^ 256 - 1) div d),
      Target_calculateDifficulty = (\<lambda>newTime headTime d. if newTime - headTime < 60000 then d else d div 2),
      Target_toDifficulty = (\<lambda>b. (2 ^ 256 - 1) div fromBytes b),
      clients = [],
      banCount = 0,
      rnd = (\<lambda>x. x)\<rparr>"

definition example_config :: config where
  "example_config = \<lparr>poolName = ''pool'', poolDifficulty = 1, poolStatusNotificationInterval = 0\<rparr>"

definition example_payload :: blockTemplate where
  "example_payload =
     \<lparr>header = \<lparr>hdr_previousBlockHash = ''ab'',
                 hdr_target = ''0000000000000000000000000000000000000000000000000000000000000014'',
                 hdr_timestamp = 1000, hdr_randomness = ''00'', hdr_graffiti = ''00'', hdr_rest = []\<rparr>,
      tpl_rest = [],
      previousBlockInfo = Some (''0000000000000000000000000000000000000000000000000000000000000014'', 500)\<rparr>"

definition example_client :: stratumClient where
  "example_client = \<lparr>client_id = 7, publicAddress = Some ''miner'', graffiti = Some [1, 2], subscribed = True\<rparr>"

definition example_pool :: pool where
  "example_pool =
     \<lparr>config_of = example_config,
      started = True,
      stopResolve = True,
      connectWarned = False,
      connectTimeout = False,
      name = ''pool'',
      nextMiningRequestId = 1,
      miningRequestBlocks = \<lparr>capacity = 12, entries = [(0, 0)]\<rparr>,
      recentSubmissions = Map.empty,
      difficulty = 1,
      target = toBytesBE (2 ^ 256 - 1) 32,
      currentHeadTimestamp = Some 500,
      currentHeadDifficulty = Some ((2 ^ 256 - 1) div 20),
      recalculateTargetInterval = True,
      notifyStatusInterval = False,
      heap = (\<lambda>a. blank_template)(0 := example_payload),
      heap_next = 1,
      effects =
        [Shares_start, Log Info StartingStratum, Stratum_start, Log Info ConnectingToNode,
         Rpc_onClose_on, Rpc_tryConnect, Webhooks PoolConnected, Log Info ConnectedToNode,
         Log Info ListeningForBlocks, Rpc_blockTemplateStream,
         SetInterval_recalculateTarget 10000, Stratum_newWork 0 example_payload]\<rparr>"





text \<open>The example node when it rejects every \<^verbatim>\<open>submitBlock\<close>.\<close>

definition node_down_env :: env where
  "node_down_env = example_env\<lparr>submitBlock_rejects := (\<lambda>t. True)\<rparr>"

text \<open>
  A miner with one share in \<open>2 ^ 21\<close> seconds on a pool of difficulty
  \<open>2 ^ 21\<close>; all the numbers involved are doubles, and every operation on
  them is exact.
\<close>

definition slow_miner_env :: env where
  "slow_miner_env = example_env\<lparr>shareRate := (\<lambda>a. 1 / 2097152)\<rparr>"

definition hard_pool :: pool where
  "hard_pool = MiningPool_new slow_miner_env (example_config\<lparr>poolDifficulty := 2097152\<rparr>)"

section \<open>Buffers and numbers\<close>

lemma length_toBytesBE: "length (toBytesBE v n) = n"
  by (induction n) simp_all

lemma fromBytes_nonneg: "0 \<le> fromBytes bs"
  by (induction bs) simp_all

lemma fromBytes_less: "fromBytes bs < 256 ^ length bs"
proof (induction bs)
  case Nil
  show ?case by simp
next
  case (Cons b bs)
  define B :: int where "B = 256 ^ length bs"
  have "uint b \<le> 255" using uint_bounded [of b] by simp
  then have "uint b * B \<le> 255 * B"
    by (simp add: mult_right_mono B_def)
  moreover have "fromBytes bs < B" using Cons by (simp add: B_def)
  ultimately have "uint b * B + fromBytes bs < 256 * B" by linarith
  then show ?case by (simp add: B_def)
qed

lemma Buffer_compare_numeric:
  "length xs = length ys \<Longrightarrow> (Buffer_compare xs ys \<noteq> 1) = (fromBytes xs \<le> fromBytes ys)"
proof (induction xs ys rule: list_induct2)
  case Nil
  show ?case by simp
next
  case (Cons x xs y ys)
  let ?B = "(256::int) ^ length ys"
  have lx: "fromBytes xs < ?B" "0 \<le> fromBytes xs"
    using fromBytes_less [of xs] fromBytes_nonneg [of xs] Cons.hyps by simp_all
  have ly: "fromBytes ys < ?B" "0 \<le> fromBytes ys"
    using fromBytes_less [of ys] fromBytes_nonneg [of ys] by simp_all
  consider (lt) "x < y" | (gt) "y < x" | (eq) "x = y" by fastforce
  then show ?case
  proof cases
    case lt
    then have "uint x + 1 \<le> uint y" by (simp add: word_less_def)
    then have "(uint x + 1) * ?B \<le> uint y * ?B" by (simp add: mult_right_mono)
    then have "uint x * ?B + ?B \<le> uint y * ?B" by (simp add: algebra_simps)
    with lx ly lt Cons.hyps show ?thesis by simp
  next
    case gt
    then have "uint y + 1 \<le> uint x" by (simp add: word_less_def)
    then have "(uint y + 1) * ?B \<le> uint x * ?B" by (simp add: mult_right_mono)
    then have "uint y * ?B + ?B \<le> uint x * ?B" by (simp add: algebra_simps)
    moreover have "\<not> x < y" using gt by simp
    ultimately show ?thesis using lx ly gt Cons.hyps by simp
  next
    case eq
    with Cons show ?thesis by simp
  qed
qed

lemma fromBytes_toBytesBE: "fromBytes (toBytesBE v n) = v mod 256 ^ n"
proof (induction n)
  case 0
  show ?case by simp
next
  case (Suc n)
  have "uint (word_of_int (v div 256 ^ n) :: byte) = (v div 256 ^ n) mod 256"
    by (simp add: uint_word_of_int)
  then have "fromBytes (toBytesBE v (Suc n)) = ((v div 256 ^ n) mod 256) * 256 ^ n + v mod 256 ^ n"
    using Suc by (simp add: length_toBytesBE)
  also have "\<dots> = v mod (256 ^ n * 256)"
    using zmod_zmult2_eq [of 256 v "256 ^ n"] by (simp add: mult.commute)
  also have "\<dots> = v mod 256 ^ Suc n"
    by (simp add: mult.commute)
  finally show ?case .
qed

lemma hex_val_hex_digit: "n < 16 \<Longrightarrow> hex_val (hex_digit n) = Some n"
proof -
  assume "n < 16"
  then have "n \<in> set [0..<16]" by simp
  moreover have "\<forall>k \<in> set [0..<16]. hex_val (hex_digit k) = Some k"
    by (simp add: upt_rec hex_val_def hex_digit_def)
  ultimately show ?thesis by blast
qed

lemma Buffer_from_hex_toString_hex: "Buffer_from_hex (toString_hex bs) = bs"
proof (induction bs)
  case Nil
  show ?case by (simp add: toString_hex_def)
next
  case (Cons b bs)
  have d: "unat b div 16 < 16" using unsigned_less [of b, where ?'a = nat] by simp
  have m: "unat b mod 16 < 16" by simp
  have "(of_nat (16 * (unat b div 16) + unat b mod 16) :: byte) = of_nat (unat b)"
    by simp
  then have r: "(of_nat (16 * (unat b div 16) + unat b mod 16) :: byte) = b" by simp
  from Cons show ?case
    using hex_val_hex_digit [OF d] hex_val_hex_digit [OF m] r
    by (simp add: toString_hex_def)
qed

lemma length_toString_hex: "length (toString_hex bs) = 2 * length bs"
  by (induction bs) (simp_all add: toString_hex_def)

lemma effects_emit: "effects (emit es p) = effects p @ es"
  by (simp add: emit_def)

lemma new_effects_append: "effects p' = effects p @ es \<Longrightarrow> new_effects p p' = es"
  by (simp add: new_effects_def)

section \<open>The example pool is a pool\<close>

lemma hex20: "fromBytes (Buffer_from_hex ''0000000000000000000000000000000000000000000000000000000000000014'') = 20"
  by code_simp

lemma example_pool_reachable:
  "run example_env (MiningPool_new example_env example_config)
     [Op_start, Op_tryConnect True, Op_payload example_payload] = example_pool"
  unfolding run_def example_pool_def
  by (simp add: MiningPool_new_def start_def startConnectingRpc_call_def emit_def Let_def
      startConnectingRpc_resume_def processNewBlocks_payload_def
      restartCalculateTargetInterval_def distributeNewBlock_def distributeNewBlock_steps_def stratum_newWork_def
      LeastRecentlyUsed_new_def lru_set_def RECALCULATE_TARGET_TIMEOUT_def
      example_config_def example_env_def example_payload_def hex20
      del: Buffer_from_hex.simps)


lemma len20: "length (Buffer_from_hex ''0000000000000000000000000000000000000000000000000000000000000014'') = 32"
  by code_simp

section \<open>What each operation leaves alone\<close>

lemma pool_inv_new: "pool_inv (MiningPool_new e cfg)"
  by (simp add: pool_inv_def MiningPool_new_def LeastRecentlyUsed_new_def length_toBytesBE)



lemma same_work_inv: "same_work p q \<Longrightarrow> pool_inv p \<Longrightarrow> pool_inv q"
  by (simp add: same_work_def pool_inv_def)

lemma start_frame: "same_work p (start p) \<and> recentSubmissions (start p) = recentSubmissions p"
  by (simp add: same_work_def start_def startConnectingRpc_call_def emit_def Let_def)

lemma stop_frame: "same_work p (stop p) \<and> recentSubmissions (stop p) = recentSubmissions p"
  by (simp add: same_work_def stop_def emit_def Let_def)

lemma call_frame: "same_work p (startConnectingRpc_call p) \<and>
    recentSubmissions (startConnectingRpc_call p) = recentSubmissions p"
  by (simp add: same_work_def startConnectingRpc_call_def emit_def)

lemma resume_frame: "same_work p (startConnectingRpc_resume c p) \<and>
    recentSubmissions (startConnectingRpc_resume c p) = recentSubmissions p"
  by (simp add: same_work_def startConnectingRpc_resume_def emit_def Let_def)

lemma onDisconnectRpc_frame: "same_work p (onDisconnectRpc p) \<and>
    recentSubmissions (onDisconnectRpc p) = recentSubmissions p"
  by (simp add: same_work_def onDisconnectRpc_def startConnectingRpc_call_def emit_def)

lemma notifyStatus_frame: "same_work p (state_of (notifyStatus e p)) \<and>
    recentSubmissions (state_of (notifyStatus e p)) = recentSubmissions p"
  by (simp add: same_work_def notifyStatus_def emit_def Let_def)

lemma catch_frame: "same_work p (processNewBlocks_catch p) \<and>
    recentSubmissions (processNewBlocks_catch p) = recentSubmissions p"
  by (simp add: same_work_def processNewBlocks_catch_def stop_def emit_def Let_def)

lemma addWorkSubmission_frame: "same_work p (addWorkSubmission c r p) \<and>
   effects (addWorkSubmission c r p) = effects p"
  by (simp add: same_work_def addWorkSubmission_def split: option.splits)



lemma isDuplicateSubmission_emit [simp]:
  "isDuplicateSubmission (emit es p) c r = isDuplicateSubmission p c r"
  by (simp add: isDuplicateSubmission_def emit_def)

lemma submitWork_frame: "same_work p (state_of (submitWork e client i r p))"
  using addWorkSubmission_frame [of p "client_id client" r]
  by (simp add: submitWork_def same_work_def emit_def Let_def split: option.splits)


lemma distributeNewBlock_Returned:
  "currentHeadTimestamp p \<noteq> None \<Longrightarrow> currentHeadDifficulty p \<noteq> None \<Longrightarrow>
   distributeNewBlock newBlock p = Returned (stratum_newWork (nextMiningRequestId p) newBlock
     (p\<lparr>nextMiningRequestId := nextMiningRequestId p + 1,
        miningRequestBlocks := lru_set (miningRequestBlocks p) (nextMiningRequestId p) newBlock,
        recentSubmissions := Map.empty\<rparr>))"
  by (simp add: distributeNewBlock_def distributeNewBlock_steps_def Let_def)

lemma distributeNewBlock_Thrown:
  "distributeNewBlock newBlock p = Thrown err q \<Longrightarrow> q = p"
  by (simp add: distributeNewBlock_def distributeNewBlock_steps_def Let_def split: if_splits)

lemma lru_set_inv:
  assumes "pool_inv p"
  shows "pool_inv (p\<lparr>nextMiningRequestId := nextMiningRequestId p + 1,
        miningRequestBlocks := lru_set (miningRequestBlocks p) (nextMiningRequestId p) a\<rparr>)"
proof -
  let ?c = "miningRequestBlocks p" and ?n = "nextMiningRequestId p"
  have keys: "\<forall>k \<in> fst ` set (entries ?c). 0 \<le> k \<and> k < ?n"
    and cap: "capacity ?c = 12" and n0: "0 \<le> ?n" and len: "length (target p) = 32"
    using assms by (simp_all add: pool_inv_def)
  have flt: "filter (\<lambda>kv. fst kv \<noteq> ?n) (entries ?c) = entries ?c"
    using keys by (auto simp: filter_id_conv)
  have ent: "entries (lru_set ?c ?n a) = (?n, a) # take 11 (entries ?c)"
    by (simp add: lru_set_def cap flt numeral_eq_Suc)
  have "\<forall>k \<in> fst ` set (take 11 (entries ?c)). 0 \<le> k \<and> k < ?n + 1"
    using keys by (auto dest!: in_set_takeD)
  then show ?thesis
    using n0 len cap by (simp add: pool_inv_def ent) (simp add: lru_set_def)
qed

lemma pool_inv_effects: "pool_inv (p\<lparr>effects := es\<rparr>) = pool_inv p"
  by (simp add: pool_inv_def)

lemma pool_inv_recentSubmissions: "pool_inv (p\<lparr>recentSubmissions := m\<rparr>) = pool_inv p"
  by (simp add: pool_inv_def)

lemma distributeNewBlock_inv:
  assumes "pool_inv p"
  shows "pool_inv (state_of (distributeNewBlock a p))"
proof (cases "currentHeadTimestamp p = None \<or> currentHeadDifficulty p = None")
  case True
  then show ?thesis using assms by (auto simp: distributeNewBlock_def)
next
  case False
  then show ?thesis
    using lru_set_inv [OF assms, of a]
    by (simp add: distributeNewBlock_Returned stratum_newWork_def emit_def
        pool_inv_effects pool_inv_recentSubmissions)
qed

lemma pool_inv_cong:
  "nextMiningRequestId q = nextMiningRequestId p \<Longrightarrow>
   miningRequestBlocks q = miningRequestBlocks p \<Longrightarrow> target q = target p \<Longrightarrow>
   pool_inv q = pool_inv p"
  by (simp add: pool_inv_def)

lemma processNewBlocks_payload_None:
  "previousBlockInfo payload = None \<Longrightarrow>
   processNewBlocks_payload e payload p = Thrown AssertionError p"
  by (simp add: processNewBlocks_payload_def)

lemma processNewBlocks_payload_Some:
  "previousBlockInfo payload = Some info \<Longrightarrow>
   processNewBlocks_payload e payload p =
     distributeNewBlock (heap_next p)
       ((restartCalculateTargetInterval p)
          \<lparr>currentHeadDifficulty := Some (Target_toDifficulty e (Buffer_from_hex (fst info))),
           currentHeadTimestamp := Some (snd info),
           heap := (heap p)(heap_next p := payload),
           heap_next := heap_next p + 1\<rparr>)"
  by (simp add: processNewBlocks_payload_def Let_def restartCalculateTargetInterval_def emit_def)

lemma restart_frame: "same_work p (restartCalculateTargetInterval p) \<and>
    recentSubmissions (restartCalculateTargetInterval p) = recentSubmissions p"
  by (simp add: same_work_def restartCalculateTargetInterval_def emit_def Let_def)

lemma processNewBlocks_payload_inv:
  assumes "pool_inv p"
  shows "pool_inv (state_of (processNewBlocks_payload e payload p))"
proof (cases "previousBlockInfo payload")
  case None
  then show ?thesis using assms by (simp add: processNewBlocks_payload_None)
next
  case (Some info)
  let ?q = "(restartCalculateTargetInterval p)
          \<lparr>currentHeadDifficulty := Some (Target_toDifficulty e (Buffer_from_hex (fst info))),
           currentHeadTimestamp := Some (snd info),
           heap := (heap p)(heap_next p := payload),
           heap_next := heap_next p + 1\<rparr>"
  have "pool_inv ?q = pool_inv p"
    using restart_frame [of p] by (intro pool_inv_cong) (simp_all add: same_work_def)
  with assms have "pool_inv ?q" by simp
  then show ?thesis
    unfolding processNewBlocks_payload_Some [OF Some] by (rule distributeNewBlock_inv)
qed

lemma recalculateTarget_cases:
  "recalculateTarget e newTime p =
     (case currentHeadTimestamp p of
        None \<Rightarrow> Thrown AssertionError (emit [Log Debug RecalculatingTarget] p)
      | Some headTimestamp \<Rightarrow>
     (case currentHeadDifficulty p of
        None \<Rightarrow> Thrown AssertionError (emit [Log Debug RecalculatingTarget] p)
      | Some headDifficulty \<Rightarrow>
     (case lru_get (miningRequestBlocks p) (nextMiningRequestId p - 1) of
        None \<Rightarrow> Thrown AssertionError (emit [Log Debug RecalculatingTarget] p)
      | Some latestBlock \<Rightarrow>
         (if Target_fromDifficulty e (Target_calculateDifficulty e newTime headTimestamp headDifficulty)
             = fromBytes (Buffer_from_hex (hdr_target (header (heap p latestBlock))))
          then Returned (emit [Log Debug RecalculatingTarget, Log Debug (SameTarget
                 (Target_fromDifficulty e (Target_calculateDifficulty e newTime headTimestamp headDifficulty)))] p)
          else
            (let p2 = stratum_newWork (nextMiningRequestId p) latestBlock
               (p\<lparr>nextMiningRequestId := nextMiningRequestId p + 1,
                  miningRequestBlocks := lru_set (miningRequestBlocks p) (nextMiningRequestId p) latestBlock,
                  recentSubmissions := Map.empty,
                  heap := (heap p)(latestBlock := (heap p latestBlock)\<lparr>header := (header (heap p latestBlock))
                     \<lparr>hdr_target := toString_hex (toBytesBE (Target_fromDifficulty e
                          (Target_calculateDifficulty e newTime headTimestamp headDifficulty)) 32),
                      hdr_timestamp := newTime\<rparr>\<rparr>),
                  effects := effects p @ [Log Debug RecalculatingTarget]\<rparr>)
             in Returned (emit [Log Debug (TargetRecalculated (hdr_previousBlockHash (header (heap p latestBlock))))] p2))))))"
  by (simp add: recalculateTarget_def Let_def emit_def distributeNewBlock_def
      distributeNewBlock_steps_def stratum_newWork_def
      split: option.splits)

lemma recalculateTarget_inv:
  assumes "pool_inv p"
  shows "pool_inv (state_of (recalculateTarget e newTime p))"
proof -
  have a: "pool_inv (emit es p)" for es
    using assms by (simp add: emit_def pool_inv_effects)
  have b: "pool_inv (emit es (stratum_newWork i a
     (p\<lparr>nextMiningRequestId := nextMiningRequestId p + 1,
        miningRequestBlocks := lru_set (miningRequestBlocks p) (nextMiningRequestId p) a,
        recentSubmissions := m, heap := h, effects := es'\<rparr>)))" for es i a m h es'
  proof -
    have "pool_inv (emit es (stratum_newWork i a
     (p\<lparr>nextMiningRequestId := nextMiningRequestId p + 1,
        miningRequestBlocks := lru_set (miningRequestBlocks p) (nextMiningRequestId p) a,
        recentSubmissions := m, heap := h, effects := es'\<rparr>))) =
      pool_inv (p\<lparr>nextMiningRequestId := nextMiningRequestId p + 1,
        miningRequestBlocks := lru_set (miningRequestBlocks p) (nextMiningRequestId p) a\<rparr>)"
      by (intro pool_inv_cong) (simp_all add: emit_def stratum_newWork_def)
    then show ?thesis using lru_set_inv [OF assms, of a] by simp
  qed
  show ?thesis
    unfolding recalculateTarget_cases
    by (simp add: a b Let_def split: option.splits)
qed

lemma step_inv: "pool_inv p \<Longrightarrow> pool_inv (step e p op)"
proof (cases op)
  case Op_start
  then show "pool_inv p \<Longrightarrow> ?thesis" using start_frame [of p] by (auto intro: same_work_inv)
next
  case Op_stop
  then show "pool_inv p \<Longrightarrow> ?thesis" using stop_frame [of p] by (auto intro: same_work_inv)
next
  case (Op_submitWork c i r)
  then show "pool_inv p \<Longrightarrow> ?thesis" using submitWork_frame [of p e c i r] by (auto intro: same_work_inv)
next
  case Op_connectTimeout
  then show "pool_inv p \<Longrightarrow> ?thesis" using call_frame [of p] by (auto intro: same_work_inv)
next
  case (Op_tryConnect b)
  then show "pool_inv p \<Longrightarrow> ?thesis" using resume_frame [of p b] by (auto intro: same_work_inv)
next
  case Op_onDisconnectRpc
  then show "pool_inv p \<Longrightarrow> ?thesis" using onDisconnectRpc_frame [of p] by (auto intro: same_work_inv)
next
  case (Op_payload payload)
  assume inv: "pool_inv p"
  show ?thesis
  proof (cases "processNewBlocks_payload e payload p")
    case (Returned q)
    then show ?thesis using processNewBlocks_payload_inv [OF inv, of e payload] Op_payload by simp
  next
    case (Thrown err q)
    then have "pool_inv q" using processNewBlocks_payload_inv [OF inv, of e payload] by simp
    then have "pool_inv (processNewBlocks_catch q)"
      using catch_frame [of q] by (auto intro: same_work_inv)
    then show ?thesis using Thrown Op_payload by simp
  qed
next
  case (Op_recalculateTarget t)
  then show "pool_inv p \<Longrightarrow> ?thesis" using recalculateTarget_inv [of p e t] by simp
next
  case Op_notifyStatus
  then show "pool_inv p \<Longrightarrow> ?thesis" using notifyStatus_frame [of p e] by (auto intro: same_work_inv)
qed

lemma run_inv: "pool_inv p \<Longrightarrow> pool_inv (run e p ops)"
  unfolding run_def by (induction ops arbitrary: p) (simp_all add: step_inv)

lemma reachable_inv: "pool_inv (run e (MiningPool_new e cfg) ops)"
  by (rule run_inv [OF pool_inv_new])

lemma pool_inv_no_negative:
  assumes "pool_inv p" "k < 0"
  shows "lru_get (miningRequestBlocks p) k = None"
proof -
  have "k \<notin> fst ` set (entries (miningRequestBlocks p))"
    using assms by (auto simp: pool_inv_def)
  then show ?thesis by (simp add: lru_get_def map_of_eq_None_iff)
qed

lemma lru_set_current:
  assumes inv: "pool_inv p"
  shows "lru_get (lru_set (miningRequestBlocks p) (nextMiningRequestId p) a) (nextMiningRequestId p) = Some a"
    and "lru_get (miningRequestBlocks p) (nextMiningRequestId p - 1) = Some b \<Longrightarrow>
      lru_get (lru_set (miningRequestBlocks p) (nextMiningRequestId p) a) (nextMiningRequestId p - 1) = Some b"
proof -
  let ?c = "miningRequestBlocks p" and ?n = "nextMiningRequestId p"
  have keys: "\<forall>k \<in> fst ` set (entries ?c). 0 \<le> k \<and> k < ?n"
    and cap: "capacity ?c = 12"
    and hd: "entries ?c \<noteq> [] \<longrightarrow> fst (hd (entries ?c)) = ?n - 1"
    using inv by (simp_all add: pool_inv_def)
  have flt: "filter (\<lambda>kv. fst kv \<noteq> ?n) (entries ?c) = entries ?c"
    using keys by (auto simp: filter_id_conv)
  have ent: "entries (lru_set ?c ?n a) = (?n, a) # take 11 (entries ?c)"
    by (simp add: lru_set_def cap flt numeral_eq_Suc)
  show "lru_get (lru_set ?c ?n a) ?n = Some a"
    by (simp add: lru_get_def ent)
  assume old: "lru_get ?c (?n - 1) = Some b"
  then obtain kv rest where e: "entries ?c = kv # rest"
    by (cases "entries ?c") (simp_all add: lru_get_def)
  with hd have k: "fst kv = ?n - 1" by simp
  with old e have "snd kv = b" by (cases kv) (simp add: lru_get_def)
  with k e show "lru_get (lru_set ?c ?n a) (?n - 1) = Some b"
    by (cases kv) (simp add: lru_get_def ent numeral_eq_Suc)
qed

lemma start_quiet: "quiet p (start p)"
  by (simp add: quiet_def start_def startConnectingRpc_call_def emit_def Let_def work_broadcast_def)

lemma stop_quiet: "quiet p (stop p)"
  by (simp add: quiet_def stop_def emit_def Let_def work_broadcast_def)

lemma call_quiet: "quiet p (startConnectingRpc_call p)"
  by (simp add: quiet_def startConnectingRpc_call_def emit_def work_broadcast_def)

lemma resume_quiet: "quiet p (startConnectingRpc_resume c p)"
  by (simp add: quiet_def startConnectingRpc_resume_def emit_def Let_def work_broadcast_def)

lemma onDisconnectRpc_quiet: "quiet p (onDisconnectRpc p)"
  by (simp add: quiet_def onDisconnectRpc_def startConnectingRpc_call_def emit_def work_broadcast_def)

lemma notifyStatus_quiet: "quiet p (state_of (notifyStatus e p))"
  by (simp add: quiet_def notifyStatus_def emit_def Let_def work_broadcast_def)

lemma catch_quiet: "quiet p (processNewBlocks_catch p)"
  by (simp add: quiet_def processNewBlocks_catch_def stop_def emit_def Let_def work_broadcast_def)

lemma submitWork_quiet: "quiet p (state_of (submitWork e client i r p))"
  using addWorkSubmission_frame [of p "client_id client" r]
  by (simp add: quiet_def submitWork_def same_work_def emit_def Let_def work_broadcast_def
      split: option.splits)

lemma work_broadcast_append: "work_broadcast (xs @ ys) = work_broadcast xs @ work_broadcast ys"
  by (simp add: work_broadcast_def)

lemma payload_publishes:
  "quiet p (step e p (Op_payload payload)) \<or> publishes p (step e p (Op_payload payload))"
proof (cases "previousBlockInfo payload")
  case None
  then show ?thesis
    using catch_quiet [of p] by (simp add: processNewBlocks_payload_None)
next
  case (Some info)
  then have "publishes p (step e p (Op_payload payload))"
    by (simp add: processNewBlocks_payload_Some distributeNewBlock_Returned stratum_newWork_def
        restartCalculateTargetInterval_def emit_def Let_def publishes_def work_broadcast_def)
  then show ?thesis ..
qed

lemma recalculateTarget_publishes:
  "quiet p (state_of (recalculateTarget e t p)) \<or> publishes p (state_of (recalculateTarget e t p))"
  unfolding recalculateTarget_cases
  by (simp add: quiet_def publishes_def emit_def stratum_newWork_def Let_def work_broadcast_def
      split: option.splits)

lemma step_publishes: "quiet p (step e p op) \<or> publishes p (step e p op)"
proof (cases op)
  case (Op_payload payload)
  then show ?thesis using payload_publishes [of p e payload] by simp
next
  case (Op_recalculateTarget t)
  then show ?thesis using recalculateTarget_publishes [of p e t] by simp
qed (simp_all add: start_quiet stop_quiet call_quiet resume_quiet onDisconnectRpc_quiet
      notifyStatus_quiet submitWork_quiet)

lemma step_new_effects:
  "(nextMiningRequestId (step e p op) = nextMiningRequestId p \<and>
      work_broadcast (new_effects p (step e p op)) = []) \<or>
   (nextMiningRequestId (step e p op) = nextMiningRequestId p + 1 \<and>
      map fst (work_broadcast (new_effects p (step e p op))) = [nextMiningRequestId p])"
  using step_publishes [of p e op]
  by (auto simp: quiet_def publishes_def new_effects_def)

lemma step_mono: "nextMiningRequestId p \<le> nextMiningRequestId (step e p op)"
  using step_new_effects [of e p op] by auto

lemma run_append: "run e p (ops @ later) = run e (run e p ops) later"
  by (simp add: run_def)

lemma run_mono: "nextMiningRequestId p \<le> nextMiningRequestId (run e p ops)"
proof (induction ops arbitrary: p)
  case Nil
  show ?case by (simp add: run_def)
next
  case (Cons op ops)
  have "nextMiningRequestId p \<le> nextMiningRequestId (step e p op)" by (rule step_mono)
  also have "\<dots> \<le> nextMiningRequestId (run e (step e p op) ops)" by (rule Cons.IH)
  finally show ?case by (simp add: run_def)
qed

lemma step_ids: 
  assumes "ids_in_order p"
  shows "ids_in_order (step e p op)"
proof -
  from step_publishes [of p e op] show ?thesis
  proof
    assume "quiet p (step e p op)"
    then show ?thesis using assms by (auto simp: quiet_def ids_in_order_def work_broadcast_append)
  next
    assume "publishes p (step e p op)"
    then obtain es t where e: "effects (step e p op) = effects p @ es"
      and w: "work_broadcast es = [(nextMiningRequestId p, t)]"
      and n: "nextMiningRequestId (step e p op) = nextMiningRequestId p + 1"
      by (auto simp: publishes_def)
    have n0: "0 \<le> nextMiningRequestId p" using assms by (simp add: ids_in_order_def)
    then have "nat (nextMiningRequestId p + 1) = Suc (nat (nextMiningRequestId p))" by simp
    then show ?thesis
      using assms n0 by (simp add: ids_in_order_def e n w work_broadcast_append)
  qed
qed

lemma run_ids: "ids_in_order p \<Longrightarrow> ids_in_order (run e p ops)"
  unfolding run_def by (induction ops arbitrary: p) (simp_all add: step_ids)

lemma new_ids: "ids_in_order (MiningPool_new e cfg)"
  by (simp add: ids_in_order_def MiningPool_new_def work_broadcast_def)






lemma failed_answer:
  assumes "started p"
  shows "startConnectingRpc_resume False p =
     (emit ((if connectWarned p then [] else [Log Warn FailedToConnect]) @
            [SetTimeout_startConnectingRpc 5000]) p)\<lparr>connectWarned := True, connectTimeout := True\<rparr>"
  using assms by (simp add: startConnectingRpc_resume_def emit_def Let_def)

lemma logged_append: "logged l (xs @ ys) = logged l xs @ logged l ys"
  by (simp add: logged_def)

lemma webhooks_notified_append:
  "webhooks_notified (xs @ ys) = webhooks_notified xs @ webhooks_notified ys"
  by (simp add: webhooks_notified_def)

lemma outage_effects:
  assumes "started p" "\<not> connectWarned p"
  shows "\<exists>es. effects (run e p (outage n)) = effects p @ es \<and>
     started (run e p (outage n)) \<and> connectWarned (run e p (outage n)) \<and>
     connectTimeout (run e p (outage n)) \<and>
     logged Warn es = [FailedToConnect] \<and> webhooks_notified es = [] \<and>
     count_list es (SetTimeout_startConnectingRpc 5000) = Suc n"
proof (induction n)
  case 0
  show ?case
    using assms
    by (simp add: run_def failed_answer emit_def logged_def webhooks_notified_def)
next
  case (Suc n)
  let ?q = "run e p (outage n)"
  from Suc obtain es where es: "effects ?q = effects p @ es" "started ?q" "connectWarned ?q"
    "logged Warn es = [FailedToConnect]" "webhooks_notified es = []"
    "count_list es (SetTimeout_startConnectingRpc 5000) = Suc n"
    by blast
  have st: "started (startConnectingRpc_call ?q)" "connectWarned (startConnectingRpc_call ?q)"
    "effects (startConnectingRpc_call ?q) = effects ?q @ [Rpc_tryConnect]"
    using es(2,3) by (simp_all add: startConnectingRpc_call_def emit_def)
  have r: "run e p (outage (Suc n)) =
      startConnectingRpc_resume False (startConnectingRpc_call ?q)"
    by (simp add: run_append) (simp add: run_def)
  show ?case
    unfolding r failed_answer [OF st(1)]
    using st es
    by (simp add: emit_def logged_append webhooks_notified_append)
       (simp add: logged_def webhooks_notified_def)
qed

lemma rnd_bounds:
  fixes u x :: real
  assumes "\<forall>y. \<bar>f y - y\<bar> \<le> u * \<bar>y\<bar>" "0 \<le> x"
  shows "(1 - u) * x \<le> f x" and "f x \<le> (1 + u) * x"
proof -
  have "\<bar>f x - x\<bar> \<le> u * x" using assms by (metis abs_of_nonneg)
  then have "x - u * x \<le> f x" "f x \<le> x + u * x" by linarith+
  then show "(1 - u) * x \<le> f x" and "f x \<le> (1 + u) * x" by (simp_all add: algebra_simps)
qed

lemma submitWork_checks:
  assumes client: "publicAddress client = Some address" "graffiti client = Some clientGraffiti"
    and current: "miningRequestId = nextMiningRequestId p - 1"
    and cached: "lru_get (miningRequestBlocks p) miningRequestId = Some cached"
    and fresh: "\<not> isDuplicateSubmission p (client_id client) randomness"
    and composed: "blockTemplate = (heap p cached)\<lparr>header := (header (heap p cached))
        \<lparr>hdr_graffiti := toString_hex clientGraffiti, hdr_randomness := randomness\<rparr>\<rparr>"
    and serialized: "mineableHeaderString e (header blockTemplate) = Some headerBytes"
    and digest: "digest = blake3 e headerBytes" "length digest = 32"
    and widths: "length (Buffer_from_hex (hdr_target (header (heap p cached)))) = 32"
      "length (target p) = 32"
  shows "blocks_submitted (new_effects p (state_of (submitWork e client miningRequestId randomness p))) =
        (if fromBytes digest \<le> fromBytes (Buffer_from_hex (hdr_target (header (heap p cached))))
         then [blockTemplate] else [])"
    and "shares_credited (new_effects p (state_of (submitWork e client miningRequestId randomness p))) =
        (if fromBytes digest \<le> fromBytes (target p) \<and>
            \<not> (fromBytes digest \<le> fromBytes (Buffer_from_hex (hdr_target (header (heap p cached)))) \<and>
               block_branch_rejects e blockTemplate)
         then [address] else [])"
    and "(\<exists>p'. submitWork e client miningRequestId randomness p = Returned p') =
        (\<not> (fromBytes digest \<le> fromBytes (Buffer_from_hex (hdr_target (header (heap p cached)))) \<and>
               block_branch_rejects e blockTemplate) \<and>
         \<not> (fromBytes digest \<le> fromBytes (target p) \<and> submitShare_rejects e address))"
    and "(\<exists>q. submitWork e client miningRequestId randomness p = Thrown PromiseRejected q) =
        ((fromBytes digest \<le> fromBytes (Buffer_from_hex (hdr_target (header (heap p cached)))) \<and>
               block_branch_rejects e blockTemplate) \<or>
         (fromBytes digest \<le> fromBytes (target p) \<and> submitShare_rejects e address))"
proof -
  let ?T = "Buffer_from_hex (hdr_target (header (heap p cached)))"
  have cmpT: "(Buffer_compare digest ?T \<noteq> 1) = (fromBytes digest \<le> fromBytes ?T)"
    using digest(2) widths(1) by (simp add: Buffer_compare_numeric)
  have cmpP: "(Buffer_compare digest (target p) \<noteq> 1) = (fromBytes digest \<le> fromBytes (target p))"
    using digest(2) widths(2) by (simp add: Buffer_compare_numeric)
  have tgt: "target (addWorkSubmission c r p) = target p" for c r
    by (simp add: addWorkSubmission_def split: option.splits)
  have eff: "effects (addWorkSubmission c r p) = effects p" for c r
    by (simp add: addWorkSubmission_def split: option.splits)
  have ser: "mineableHeaderString e ((header (heap p cached))
        \<lparr>hdr_graffiti := toString_hex clientGraffiti, hdr_randomness := randomness\<rparr>) = Some headerBytes"
    using serialized composed by simp
  have cmpT1: "(Buffer_compare digest ?T = 1) = (\<not> fromBytes digest \<le> fromBytes ?T)"
    using cmpT by blast
  have cmpP1: "(Buffer_compare digest (target p) = 1) = (\<not> fromBytes digest \<le> fromBytes (target p))"
    using cmpP by blast
  note facts = Let_def digest(1) [symmetric] composed tgt eff emit_def new_effects_def
        blocks_submitted_def shares_credited_def cmpT1 cmpP1 block_branch_rejects_def
  show "blocks_submitted (new_effects p (state_of (submitWork e client miningRequestId randomness p))) =
        (if fromBytes digest \<le> fromBytes ?T then [blockTemplate] else [])"
    using client current cached fresh ser unfolding submitWork_def by (simp add: facts)
  show "shares_credited (new_effects p (state_of (submitWork e client miningRequestId randomness p))) =
        (if fromBytes digest \<le> fromBytes (target p) \<and>
            \<not> (fromBytes digest \<le> fromBytes ?T \<and> block_branch_rejects e blockTemplate)
         then [address] else [])"
    using client current cached fresh ser unfolding submitWork_def by (simp add: facts)
  show "(\<exists>p'. submitWork e client miningRequestId randomness p = Returned p') =
        (\<not> (fromBytes digest \<le> fromBytes ?T \<and> block_branch_rejects e blockTemplate) \<and>
         \<not> (fromBytes digest \<le> fromBytes (target p) \<and> submitShare_rejects e address))"
    using client current cached fresh ser unfolding submitWork_def by (auto simp: facts)
  show "(\<exists>q. submitWork e client miningRequestId randomness p = Thrown PromiseRejected q) =
        ((fromBytes digest \<le> fromBytes ?T \<and> block_branch_rejects e blockTemplate) \<or>
         (fromBytes digest \<le> fromBytes (target p) \<and> submitShare_rejects e address))"
    using client current cached fresh ser unfolding submitWork_def by (auto simp: facts)
qed

lemma example_submission:
  assumes "blake3 e = blake3 example_env"
    and "mineableHeaderString e = mineableHeaderString example_env"
  shows "publicAddress example_client = Some ''miner''"
    and "graffiti example_client = Some [1, 2]"
    and "(0::int) = nextMiningRequestId example_pool - 1"
    and "lru_get (miningRequestBlocks example_pool) 0 = Some 0"
    and "\<not> isDuplicateSubmission example_pool (client_id example_client) ''01''"
    and "example_payload\<lparr>header := (header example_payload)
           \<lparr>hdr_graffiti := ''0102'', hdr_randomness := ''01''\<rparr>\<rparr> =
         (heap example_pool 0)\<lparr>header := (header (heap example_pool 0))
           \<lparr>hdr_graffiti := toString_hex [1, 2], hdr_randomness := ''01''\<rparr>\<rparr>"
    and "mineableHeaderString e (header (example_payload\<lparr>header := (header example_payload)
           \<lparr>hdr_graffiti := ''0102'', hdr_randomness := ''01''\<rparr>\<rparr>)) = Some [1, 1, 2]"
    and "toBytesBE 5 32 = blake3 e [1, 1, 2]"
    and "length (toBytesBE 5 32) = 32"
    and "length (Buffer_from_hex (hdr_target (header (heap example_pool 0)))) = 32"
    and "length (target example_pool) = 32"
proof -
  show "publicAddress example_client = Some ''miner''" "graffiti example_client = Some [1, 2]"
    by (simp_all add: example_client_def)
  show "(0::int) = nextMiningRequestId example_pool - 1" by (simp add: example_pool_def)
  show "lru_get (miningRequestBlocks example_pool) 0 = Some 0"
    by (simp add: example_pool_def lru_get_def)
  show "\<not> isDuplicateSubmission example_pool (client_id example_client) ''01''"
    by (simp add: example_pool_def isDuplicateSubmission_def)
  have h7: "heap example_pool 0 = example_payload" by (simp add: example_pool_def)
  have hex: "toString_hex [1, 2] = ''0102''" by code_simp
  show "example_payload\<lparr>header := (header example_payload)
           \<lparr>hdr_graffiti := ''0102'', hdr_randomness := ''01''\<rparr>\<rparr> =
         (heap example_pool 0)\<lparr>header := (header (heap example_pool 0))
           \<lparr>hdr_graffiti := toString_hex [1, 2], hdr_randomness := ''01''\<rparr>\<rparr>"
    by (simp add: h7 hex)
  have "mineableHeaderString example_env (header (example_payload\<lparr>header := (header example_payload)
           \<lparr>hdr_graffiti := ''0102'', hdr_randomness := ''01''\<rparr>\<rparr>)) = Some [1, 1, 2]" by code_simp
  then show "mineableHeaderString e (header (example_payload\<lparr>header := (header example_payload)
           \<lparr>hdr_graffiti := ''0102'', hdr_randomness := ''01''\<rparr>\<rparr>)) = Some [1, 1, 2]"
    by (simp add: assms)
  show "toBytesBE 5 32 = blake3 e [1, 1, 2]" by (simp add: assms example_env_def)
  show "length (toBytesBE 5 32) = 32" by (simp add: length_toBytesBE)
  show "length (Buffer_from_hex (hdr_target (header (heap example_pool 0)))) = 32"
    unfolding h7 by (simp add: example_payload_def len20 del: Buffer_from_hex.simps)
  show "length (target example_pool) = 32" by (simp add: example_pool_def length_toBytesBE)
qed

lemma example_numbers:
  "fromBytes (toBytesBE 5 32) = 5"
  "fromBytes (Buffer_from_hex (hdr_target (header (heap example_pool 0)))) = 20"
  "fromBytes (target example_pool) = 2 ^ 256 - 1"
proof -
  show "fromBytes (toBytesBE 5 32) = 5" by (simp add: fromBytes_toBytesBE)
  show "fromBytes (Buffer_from_hex (hdr_target (header (heap example_pool 0)))) = 20"
    by (simp add: example_pool_def example_payload_def hex20 del: Buffer_from_hex.simps)
  show "fromBytes (target example_pool) = 2 ^ 256 - 1"
    by (simp add: example_pool_def fromBytes_toBytesBE)
qed

lemma distributeNewBlock_steps_eq:
  "distributeNewBlock_steps newBlock p =
     [p\<lparr>nextMiningRequestId := nextMiningRequestId p + 1\<rparr>,
      p\<lparr>nextMiningRequestId := nextMiningRequestId p + 1,
        miningRequestBlocks := lru_set (miningRequestBlocks p) (nextMiningRequestId p) newBlock\<rparr>,
      p\<lparr>nextMiningRequestId := nextMiningRequestId p + 1,
        miningRequestBlocks := lru_set (miningRequestBlocks p) (nextMiningRequestId p) newBlock,
        recentSubmissions := Map.empty\<rparr>,
      stratum_newWork (nextMiningRequestId p) newBlock
        (p\<lparr>nextMiningRequestId := nextMiningRequestId p + 1,
           miningRequestBlocks := lru_set (miningRequestBlocks p) (nextMiningRequestId p) newBlock,
           recentSubmissions := Map.empty\<rparr>)]"
  by (simp add: distributeNewBlock_steps_def Let_def)

lemma distributeNewBlock_order:
  assumes "i < length (distributeNewBlock_steps newBlock p)"
    and "work_broadcast (new_effects p (distributeNewBlock_steps newBlock p ! i)) \<noteq> []"
  shows "0 < i \<and>
     recentSubmissions (distributeNewBlock_steps newBlock p ! (i - 1)) = Map.empty \<and>
     work_broadcast (new_effects p (distributeNewBlock_steps newBlock p ! (i - 1))) = []"
proof -
  have "i < 4" using assms(1) by (simp add: distributeNewBlock_steps_eq)
  then consider "i = 0" | "i = 1" | "i = 2" | "i = 3" by linarith
  then show ?thesis
  proof cases
    case 1
    then show ?thesis
      using assms(2) by (simp add: distributeNewBlock_steps_eq new_effects_def work_broadcast_def)
  next
    case 2
    then show ?thesis
      using assms(2) by (simp add: distributeNewBlock_steps_eq new_effects_def work_broadcast_def)
  next
    case 3
    then show ?thesis
      using assms(2)
      by (simp add: distributeNewBlock_steps_eq new_effects_def work_broadcast_def numeral_2_eq_2)
  next
    case 4
    then show ?thesis
      by (simp add: distributeNewBlock_steps_eq new_effects_def work_broadcast_def numeral_3_eq_3)
  qed
qed

lemma quiet_exact:
  "quiet p q \<Longrightarrow> nextMiningRequestId q = nextMiningRequestId p \<and>
     map fst (work_broadcast (new_effects p q)) = []"
  by (auto simp: quiet_def new_effects_def)

lemma publishes_exact:
  "publishes p q \<Longrightarrow> nextMiningRequestId q = nextMiningRequestId p + 1 \<and>
     map fst (work_broadcast (new_effects p q)) = [nextMiningRequestId p]"
  by (auto simp: publishes_def new_effects_def)

lemma payload_exact:
  "(previousBlockInfo payload = None \<longrightarrow> quiet p (step e p (Op_payload payload))) \<and>
   (previousBlockInfo payload \<noteq> None \<longrightarrow> publishes p (step e p (Op_payload payload)))"
proof (cases "previousBlockInfo payload")
  case None
  then show ?thesis
    using catch_quiet [of p] by (simp add: processNewBlocks_payload_None)
next
  case (Some info)
  then have "publishes p (step e p (Op_payload payload))"
    by (simp add: processNewBlocks_payload_Some distributeNewBlock_Returned stratum_newWork_def
        restartCalculateTargetInterval_def emit_def Let_def publishes_def work_broadcast_def)
  with Some show ?thesis by simp
qed

lemma recalculateTarget_exact:
  "(publishes_work e p (Op_recalculateTarget t) \<longrightarrow>
      publishes p (state_of (recalculateTarget e t p))) \<and>
   (\<not> publishes_work e p (Op_recalculateTarget t) \<longrightarrow>
      quiet p (state_of (recalculateTarget e t p)))"
  unfolding recalculateTarget_cases
  by (simp add: publishes_work_def quiet_def publishes_def emit_def stratum_newWork_def Let_def
      work_broadcast_def split: option.splits)

lemma step_exact:
  "nextMiningRequestId (step e p op) =
     nextMiningRequestId p + (if publishes_work e p op then 1 else 0) \<and>
   map fst (work_broadcast (new_effects p (step e p op))) =
     (if publishes_work e p op then [nextMiningRequestId p] else [])"
proof (cases op)
  case Op_start
  then show ?thesis using quiet_exact [OF start_quiet [of p]] by (simp add: publishes_work_def)
next
  case Op_stop
  then show ?thesis using quiet_exact [OF stop_quiet [of p]] by (simp add: publishes_work_def)
next
  case (Op_submitWork c i r)
  then show ?thesis
    using quiet_exact [OF submitWork_quiet [of p e c i r]] by (simp add: publishes_work_def)
next
  case Op_connectTimeout
  then show ?thesis using quiet_exact [OF call_quiet [of p]] by (simp add: publishes_work_def)
next
  case (Op_tryConnect b)
  then show ?thesis using quiet_exact [OF resume_quiet [of p b]] by (simp add: publishes_work_def)
next
  case Op_onDisconnectRpc
  then show ?thesis
    using quiet_exact [OF onDisconnectRpc_quiet [of p]] by (simp add: publishes_work_def)
next
  case (Op_payload payload)
  show ?thesis
  proof (cases "previousBlockInfo payload = None")
    case True
    then have "quiet p (step e p op)" using payload_exact [of payload p e] Op_payload by simp
    from quiet_exact [OF this] True Op_payload show ?thesis by (simp add: publishes_work_def)
  next
    case False
    then have "publishes p (step e p op)" using payload_exact [of payload p e] Op_payload by simp
    from publishes_exact [OF this] False Op_payload show ?thesis by (simp add: publishes_work_def)
  qed
next
  case (Op_recalculateTarget t)
  show ?thesis
  proof (cases "publishes_work e p (Op_recalculateTarget t)")
    case True
    then have "publishes p (step e p op)"
      using recalculateTarget_exact [of e p t] Op_recalculateTarget by simp
    from publishes_exact [OF this] True Op_recalculateTarget show ?thesis by simp
  next
    case False
    then have "quiet p (step e p op)"
      using recalculateTarget_exact [of e p t] Op_recalculateTarget by simp
    from quiet_exact [OF this] False Op_recalculateTarget show ?thesis by simp
  qed
next
  case Op_notifyStatus
  then show ?thesis
    using quiet_exact [OF notifyStatus_quiet [of p e]] by (simp add: publishes_work_def)
qed

section \<open>Block check and share check\<close>

text \<open>
  C1, as the code has it.  A submission that names the current work, finds its
  template in the cache, is not a duplicate and whose header serializes: the
  template is submitted to the node exactly when the number read from the
  32-byte digest is at most the number read from the header's target.  The
  share check comes after the block branch: one share is credited to the
  client's address exactly when the digest is at most the number read from the
  pool target and the block branch has not thrown, that is, unless the digest
  met the header's target and the node rejected \<^verbatim>\<open>submitBlock\<close>, or added the
  block and the share subsystem rejected \<^verbatim>\<open>shareRate\<close>.  Block and share
  both happen for the same submission when both comparisons hold and nothing
  is rejected.  The call returns exactly when neither the block branch nor
  \<^verbatim>\<open>submitShare\<close> is rejected, and throws the rejection otherwise.  On these
  32-byte buffers the comparison of the code, \<^verbatim>\<open>compare(...) !== 1\<close>, is the
  numeric \<open>\<le>\<close>.  The digest, the decoded header target and the pool target
  are taken to be 32 bytes wide, as the data model says.
\<close>

theorem C1_block_and_share_checks:
  assumes client: "publicAddress client = Some address" "graffiti client = Some clientGraffiti"
    and current: "miningRequestId = nextMiningRequestId p - 1"
    and cached: "lru_get (miningRequestBlocks p) miningRequestId = Some cached"
    and fresh: "\<not> isDuplicateSubmission p (client_id client) randomness"
    and composed: "blockTemplate = (heap p cached)\<lparr>header := (header (heap p cached))
        \<lparr>hdr_graffiti := toString_hex clientGraffiti, hdr_randomness := randomness\<rparr>\<rparr>"
    and serialized: "mineableHeaderString e (header blockTemplate) = Some headerBytes"
    and digest: "digest = blake3 e headerBytes" "length digest = 32"
    and widths: "length (Buffer_from_hex (hdr_target (header (heap p cached)))) = 32"
      "length (target p) = 32"
  shows "blocks_submitted (new_effects p (state_of (submitWork e client miningRequestId randomness p))) =
        (if fromBytes digest \<le> fromBytes (Buffer_from_hex (hdr_target (header (heap p cached))))
         then [blockTemplate] else []) \<and>
      shares_credited (new_effects p (state_of (submitWork e client miningRequestId randomness p))) =
        (if fromBytes digest \<le> fromBytes (target p) \<and>
            \<not> (fromBytes digest \<le> fromBytes (Buffer_from_hex (hdr_target (header (heap p cached)))) \<and>
               block_branch_rejects e blockTemplate)
         then [address] else []) \<and>
      (\<exists>p'. submitWork e client miningRequestId randomness p = Returned p') =
        (\<not> (fromBytes digest \<le> fromBytes (Buffer_from_hex (hdr_target (header (heap p cached)))) \<and>
               block_branch_rejects e blockTemplate) \<and>
         \<not> (fromBytes digest \<le> fromBytes (target p) \<and> submitShare_rejects e address)) \<and>
      (\<exists>q. submitWork e client miningRequestId randomness p = Thrown PromiseRejected q) =
        ((fromBytes digest \<le> fromBytes (Buffer_from_hex (hdr_target (header (heap p cached)))) \<and>
               block_branch_rejects e blockTemplate) \<or>
         (fromBytes digest \<le> fromBytes (target p) \<and> submitShare_rejects e address)) \<and>
      (Buffer_compare digest (Buffer_from_hex (hdr_target (header (heap p cached)))) \<noteq> 1) =
        (fromBytes digest \<le> fromBytes (Buffer_from_hex (hdr_target (header (heap p cached))))) \<and>
      (Buffer_compare digest (target p) \<noteq> 1) = (fromBytes digest \<le> fromBytes (target p))"
proof -
  have "(Buffer_compare digest (Buffer_from_hex (hdr_target (header (heap p cached)))) \<noteq> 1) =
        (fromBytes digest \<le> fromBytes (Buffer_from_hex (hdr_target (header (heap p cached)))))"
    using digest(2) widths(1) by (simp add: Buffer_compare_numeric)
  moreover have "(Buffer_compare digest (target p) \<noteq> 1) = (fromBytes digest \<le> fromBytes (target p))"
    using digest(2) widths(2) by (simp add: Buffer_compare_numeric)
  ultimately show ?thesis
    using submitWork_checks [OF assms] by blast
qed

text \<open>
  On the example pool the digest 5 meets the header target 20 and the pool
  target, and nothing is rejected: the block is submitted and the share is
  credited.
\<close>

theorem C1_block_and_share_checks_witness:
  "blocks_submitted (new_effects example_pool
      (state_of (submitWork example_env example_client 0 ''01'' example_pool))) =
     [example_payload\<lparr>header := (header example_payload)
        \<lparr>hdr_graffiti := ''0102'', hdr_randomness := ''01''\<rparr>\<rparr>] \<and>
   shares_credited (new_effects example_pool
      (state_of (submitWork example_env example_client 0 ''01'' example_pool))) = [''miner''] \<and>
   (\<exists>p'. submitWork example_env example_client 0 ''01'' example_pool = Returned p') \<and>
   fromBytes (blake3 example_env [1, 1, 2]) = 5 \<and>
   fromBytes (Buffer_from_hex (hdr_target (header (heap example_pool 0)))) = 20 \<and>
   fromBytes (target example_pool) = 2 ^ 256 - 1"
proof -
  have r: "\<not> block_branch_rejects example_env t" "\<not> submitShare_rejects example_env a" for t a
    by (simp_all add: block_branch_rejects_def example_env_def)
  have b: "blake3 example_env [1, 1, 2] = toBytesBE 5 32" by (simp add: example_env_def)
  show ?thesis
    using C1_block_and_share_checks [OF example_submission [OF refl refl]]
    by (simp add: example_numbers r b)
qed

text \<open>
  The specification asks for the share whenever the digest is at most the pool
  target.  On the example pool with a node that rejects \<^verbatim>\<open>submitBlock\<close>:
  the digest 5 meets both targets, the block is submitted, the call throws and
  no share is credited.
\<close>

theorem C1_block_and_share_checks_counterexample:
  "fromBytes (blake3 node_down_env [1, 1, 2]) \<le> fromBytes (target example_pool) \<and>
   fromBytes (blake3 node_down_env [1, 1, 2]) \<le>
     fromBytes (Buffer_from_hex (hdr_target (header (heap example_pool 0)))) \<and>
   blocks_submitted (new_effects example_pool
      (state_of (submitWork node_down_env example_client 0 ''01'' example_pool))) =
     [example_payload\<lparr>header := (header example_payload)
        \<lparr>hdr_graffiti := ''0102'', hdr_randomness := ''01''\<rparr>\<rparr>] \<and>
   shares_credited (new_effects example_pool
      (state_of (submitWork node_down_env example_client 0 ''01'' example_pool))) = [] \<and>
   (\<exists>q. submitWork node_down_env example_client 0 ''01'' example_pool = Thrown PromiseRejected q)"
proof -
  have e: "blake3 node_down_env = blake3 example_env"
    "mineableHeaderString node_down_env = mineableHeaderString example_env"
    by (simp_all add: node_down_env_def)
  have r: "block_branch_rejects node_down_env t" for t
    by (simp add: block_branch_rejects_def node_down_env_def)
  have b: "blake3 node_down_env [1, 1, 2] = toBytesBE 5 32"
    by (simp add: node_down_env_def example_env_def)
  show ?thesis
    using submitWork_checks [OF example_submission [OF e]]
    by (simp add: example_numbers r b)
qed

section \<open>Publishing work\<close>

text \<open>
  C2.  A call of \<^verbatim>\<open>distributeNewBlock\<close> on a pool that knows the head of
  the chain (both callers, \<^verbatim>\<open>processNewBlocks\<close> and
  \<^verbatim>\<open>recalculateTarget\<close>, see to that; without it the assertion throws
  before anything is written) returns with an empty deduper, so that no
  submission is a duplicate in the state it leaves, and it broadcasts the
  template once, under the id the counter had.  The state it returns is the
  last of the states the call goes through, and among these states the clear
  comes strictly before the broadcast: whenever one of them has the work
  broadcast, the state before it has the deduper empty already and the work not
  broadcast yet.
\<close>

theorem C2_deduper_cleared_before_broadcast:
  assumes "currentHeadTimestamp p \<noteq> None" and "currentHeadDifficulty p \<noteq> None"
  shows "\<exists>p'. distributeNewBlock newBlock p = Returned p' \<and>
      recentSubmissions p' = Map.empty \<and>
      (\<forall>clientId randomness. \<not> isDuplicateSubmission p' clientId randomness) \<and>
      work_broadcast (new_effects p p') = [(nextMiningRequestId p, heap p newBlock)] \<and>
      p' = last (distributeNewBlock_steps newBlock p) \<and>
      (\<forall>i < length (distributeNewBlock_steps newBlock p).
         work_broadcast (new_effects p (distributeNewBlock_steps newBlock p ! i)) \<noteq> [] \<longrightarrow>
           0 < i \<and>
           recentSubmissions (distributeNewBlock_steps newBlock p ! (i - 1)) = Map.empty \<and>
           work_broadcast (new_effects p (distributeNewBlock_steps newBlock p ! (i - 1))) = [])"
proof -
  have "distributeNewBlock newBlock p = Returned (last (distributeNewBlock_steps newBlock p))"
    using assms by (simp add: distributeNewBlock_def)
  moreover have "recentSubmissions (last (distributeNewBlock_steps newBlock p)) = Map.empty"
    and "\<forall>clientId randomness.
      \<not> isDuplicateSubmission (last (distributeNewBlock_steps newBlock p)) clientId randomness"
    and "work_broadcast (new_effects p (last (distributeNewBlock_steps newBlock p))) =
      [(nextMiningRequestId p, heap p newBlock)]"
    by (simp_all add: distributeNewBlock_steps_eq stratum_newWork_def emit_def
        isDuplicateSubmission_def new_effects_def work_broadcast_def)
  ultimately show ?thesis
    using distributeNewBlock_order [of _ newBlock p] by blast
qed

text \<open>
  On the example pool, with a nonce of client 7 on record: the record is gone
  after the call and the template goes out under the id 1; the third of the
  four states has the deduper empty and nothing broadcast, the fourth has the
  broadcast.
\<close>

theorem C2_deduper_cleared_before_broadcast_witness:
  "recentSubmissions (example_pool\<lparr>recentSubmissions := [7 \<mapsto> [''01'']]\<rparr>) 7 = Some [''01''] \<and>
   (\<exists>p'. distributeNewBlock 0 (example_pool\<lparr>recentSubmissions := [7 \<mapsto> [''01'']]\<rparr>) = Returned p' \<and>
      recentSubmissions p' = Map.empty \<and>
      \<not> isDuplicateSubmission p' 7 ''01'' \<and>
      work_broadcast (new_effects (example_pool\<lparr>recentSubmissions := [7 \<mapsto> [''01'']]\<rparr>) p') =
        [(1, example_payload)] \<and>
      p' = distributeNewBlock_steps 0 (example_pool\<lparr>recentSubmissions := [7 \<mapsto> [''01'']]\<rparr>) ! 3) \<and>
   recentSubmissions (distributeNewBlock_steps 0
      (example_pool\<lparr>recentSubmissions := [7 \<mapsto> [''01'']]\<rparr>) ! 2) = Map.empty \<and>
   work_broadcast (new_effects (example_pool\<lparr>recentSubmissions := [7 \<mapsto> [''01'']]\<rparr>)
      (distributeNewBlock_steps 0 (example_pool\<lparr>recentSubmissions := [7 \<mapsto> [''01'']]\<rparr>) ! 2)) = [] \<and>
   work_broadcast (new_effects (example_pool\<lparr>recentSubmissions := [7 \<mapsto> [''01'']]\<rparr>)
      (distributeNewBlock_steps 0 (example_pool\<lparr>recentSubmissions := [7 \<mapsto> [''01'']]\<rparr>) ! 3)) =
     [(1, example_payload)]"
proof -
  let ?p = "example_pool\<lparr>recentSubmissions := [7 \<mapsto> [''01'']]\<rparr>"
  have h1: "currentHeadTimestamp ?p \<noteq> None" and h2: "currentHeadDifficulty ?p \<noteq> None"
    by (simp_all add: example_pool_def)
  have n: "nextMiningRequestId ?p = 1" and h: "heap ?p 0 = example_payload"
    by (simp_all add: example_pool_def)
  have l: "length (distributeNewBlock_steps 0 ?p) = 4"
    "last (distributeNewBlock_steps 0 ?p) = distributeNewBlock_steps 0 ?p ! 3"
    by (simp_all add: distributeNewBlock_steps_def Let_def numeral_3_eq_3)
  have b: "work_broadcast (new_effects ?p (distributeNewBlock_steps 0 ?p ! 3)) = [(1, example_payload)]"
    by (simp add: distributeNewBlock_steps_def Let_def numeral_3_eq_3 stratum_newWork_def
        emit_def new_effects_def work_broadcast_def example_pool_def)
  from C2_deduper_cleared_before_broadcast [OF h1 h2, of 0]
  obtain p' where p': "distributeNewBlock 0 ?p = Returned p'" "recentSubmissions p' = Map.empty"
    "\<forall>clientId randomness. \<not> isDuplicateSubmission p' clientId randomness"
    "work_broadcast (new_effects ?p p') = [(nextMiningRequestId ?p, heap ?p 0)]"
    "p' = last (distributeNewBlock_steps 0 ?p)"
    and ord: "\<forall>i < length (distributeNewBlock_steps 0 ?p).
         work_broadcast (new_effects ?p (distributeNewBlock_steps 0 ?p ! i)) \<noteq> [] \<longrightarrow>
           0 < i \<and>
           recentSubmissions (distributeNewBlock_steps 0 ?p ! (i - 1)) = Map.empty \<and>
           work_broadcast (new_effects ?p (distributeNewBlock_steps 0 ?p ! (i - 1))) = []"
    by blast
  have "(3::nat) < length (distributeNewBlock_steps 0 ?p)" by (simp add: l)
  with ord b have "recentSubmissions (distributeNewBlock_steps 0 ?p ! (3 - 1)) = Map.empty \<and>
      work_broadcast (new_effects ?p (distributeNewBlock_steps 0 ?p ! (3 - 1))) = []"
    by (metis not_Cons_self2)
  then have o: "recentSubmissions (distributeNewBlock_steps 0 ?p ! 2) = Map.empty"
    "work_broadcast (new_effects ?p (distributeNewBlock_steps 0 ?p ! 2)) = []"
    by simp_all
  have r: "recentSubmissions ?p 7 = Some [''01'']" by simp
  show ?thesis
    using p' o b r unfolding l(2) n h by blast
qed

section \<open>Stale submissions\<close>

text \<open>
  C3.  A call of \<^verbatim>\<open>submitWork\<close> whose mining request id is not
  \<open>nextMiningRequestId - 1\<close> credits no share, submits no block, punishes
  no client and leaves deduper, work cache, store and counter as they are.  For
  a client with an address and a graffiti (the stratum server passes no other)
  the call returns and all it does is one debug line; for a client without, the
  assertion at the head of the function throws, on the unchanged state.
\<close>

theorem C3_stale_submission_dropped:
  assumes "miningRequestId \<noteq> nextMiningRequestId p - 1"
  shows "(publicAddress client \<noteq> None \<and> graffiti client \<noteq> None \<longrightarrow>
       submitWork e client miningRequestId randomness p =
         Returned (emit [Log Debug (StaleMiningRequest (client_id client) miningRequestId)] p)) \<and>
     (publicAddress client = None \<or> graffiti client = None \<longrightarrow>
       submitWork e client miningRequestId randomness p = Thrown AssertionError p) \<and>
     shares_credited (new_effects p (state_of (submitWork e client miningRequestId randomness p))) = [] \<and>
     blocks_submitted (new_effects p (state_of (submitWork e client miningRequestId randomness p))) = [] \<and>
     clients_punished (new_effects p (state_of (submitWork e client miningRequestId randomness p))) = [] \<and>
     recentSubmissions (state_of (submitWork e client miningRequestId randomness p)) = recentSubmissions p \<and>
     miningRequestBlocks (state_of (submitWork e client miningRequestId randomness p)) = miningRequestBlocks p \<and>
     heap (state_of (submitWork e client miningRequestId randomness p)) = heap p \<and>
     nextMiningRequestId (state_of (submitWork e client miningRequestId randomness p)) = nextMiningRequestId p"
  using assms
  by (auto simp: submitWork_def emit_def new_effects_def shares_credited_def blocks_submitted_def
      clients_punished_def split: option.splits)

text \<open>On the example pool, whose current id is 0, a submission for id 5.\<close>

theorem C3_stale_submission_dropped_witness:
  "(5::int) \<noteq> nextMiningRequestId example_pool - 1 \<and>
   submitWork example_env example_client 5 ''01'' example_pool =
     Returned (emit [Log Debug (StaleMiningRequest 7 5)] example_pool) \<and>
   shares_credited (new_effects example_pool
     (state_of (submitWork example_env example_client 5 ''01'' example_pool))) = [] \<and>
   blocks_submitted (new_effects example_pool
     (state_of (submitWork example_env example_client 5 ''01'' example_pool))) = [] \<and>
   clients_punished (new_effects example_pool
     (state_of (submitWork example_env example_client 5 ''01'' example_pool))) = []"
proof -
  have h: "(5::int) \<noteq> nextMiningRequestId example_pool - 1" by (simp add: example_pool_def)
  have c: "publicAddress example_client \<noteq> None" "graffiti example_client \<noteq> None"
    "client_id example_client = 7"
    by (simp_all add: example_client_def)
  show ?thesis
    using C3_stale_submission_dropped [OF h, of example_client example_env "''01''"] h c
    by (simp add: emit_def new_effects_def shares_credited_def blocks_submitted_def
        clients_punished_def)
qed

section \<open>Duplicates\<close>



section \<open>Retargeting to a new target\<close>

text \<open>
  C5.  On a pool that the constructor and the operations have produced, with
  the head of the chain known and the current work in the cache: when the
  target that \<^verbatim>\<open>recalculateTarget\<close> computes, a number below \<open>2 ^ 256\<close>,
  differs from the number read from the header target of the cached template,
  the call returns; the template object in the store is the old one with the
  header target set to the 64 hexadecimal digits of the new target in 32 bytes
  and the time stamp set to the clock, and no other object has changed; the
  counter is incremented; the object is cached under the new id and still under
  the old one; it is broadcast once, under the id the counter had, as changed;
  and the deduper is empty.
\<close>

theorem C5_retarget_publishes_mutated_template:
  assumes reach: "p = run e (MiningPool_new e cfg) ops"
    and heads: "currentHeadTimestamp p = Some headTimestamp"
      "currentHeadDifficulty p = Some headDifficulty"
    and cached: "lru_get (miningRequestBlocks p) (nextMiningRequestId p - 1) = Some latestBlock"
    and new: "newTarget = Target_fromDifficulty e
        (Target_calculateDifficulty e newTime headTimestamp headDifficulty)"
    and differs: "newTarget \<noteq> fromBytes (Buffer_from_hex (hdr_target (header (heap p latestBlock))))"
    and range: "0 \<le> newTarget" "newTarget < 2 ^ 256"
  shows "\<exists>p'. recalculateTarget e newTime p = Returned p' \<and>
     heap p' = (heap p)(latestBlock := (heap p latestBlock)
        \<lparr>header := (header (heap p latestBlock))
           \<lparr>hdr_target := toString_hex (toBytesBE newTarget 32), hdr_timestamp := newTime\<rparr>\<rparr>) \<and>
     length (hdr_target (header (heap p' latestBlock))) = 64 \<and>
     length (Buffer_from_hex (hdr_target (header (heap p' latestBlock)))) = 32 \<and>
     fromBytes (Buffer_from_hex (hdr_target (header (heap p' latestBlock)))) = newTarget \<and>
     hdr_timestamp (header (heap p' latestBlock)) = newTime \<and>
     nextMiningRequestId p' = nextMiningRequestId p + 1 \<and>
     lru_get (miningRequestBlocks p') (nextMiningRequestId p' - 1) = Some latestBlock \<and>
     lru_get (miningRequestBlocks p') (nextMiningRequestId p - 1) = Some latestBlock \<and>
     work_broadcast (new_effects p p') = [(nextMiningRequestId p, heap p' latestBlock)] \<and>
     recentSubmissions p' = Map.empty"
proof -
  have inv: "pool_inv p" using reach by (simp add: reachable_inv)
  have val: "fromBytes (toBytesBE newTarget 32) = newTarget"
    using range by (simp add: fromBytes_toBytesBE)
  show ?thesis
    using heads cached differs [unfolded new] lru_set_current [OF inv, of latestBlock]
    unfolding recalculateTarget_cases new
    by (simp add: Let_def emit_def stratum_newWork_def new_effects_def work_broadcast_def
        length_toString_hex length_toBytesBE Buffer_from_hex_toString_hex val [unfolded new])
qed

text \<open>
  On the example pool, 100 seconds after the head of the chain: the difficulty
  is halved, the target becomes 40 instead of 20.
\<close>

theorem C5_retarget_publishes_mutated_template_witness:
  "\<exists>p'. recalculateTarget example_env 100500 example_pool = Returned p' \<and>
     hdr_target (header (heap p' 0)) = toString_hex (toBytesBE 40 32) \<and>
     hdr_timestamp (header (heap p' 0)) = 100500 \<and>
     fromBytes (Buffer_from_hex (hdr_target (header (heap p' 0)))) = 40 \<and>
     fromBytes (Buffer_from_hex (hdr_target (header (heap example_pool 0)))) = 20 \<and>
     nextMiningRequestId p' = 2 \<and>
     lru_get (miningRequestBlocks p') 1 = Some 0 \<and>
     lru_get (miningRequestBlocks p') 0 = Some 0 \<and>
     work_broadcast (new_effects example_pool p') = [(1, heap p' 0)] \<and>
     recentSubmissions p' = Map.empty"
proof -
  have h1: "currentHeadTimestamp example_pool = Some 500"
    and h2: "currentHeadDifficulty example_pool = Some ((2 ^ 256 - 1) div 20)"
    and h3: "lru_get (miningRequestBlocks example_pool) (nextMiningRequestId example_pool - 1) = Some 0"
    and n: "nextMiningRequestId example_pool = 1"
    by (simp_all add: example_pool_def lru_get_def)
  have t: "fromBytes (Buffer_from_hex (hdr_target (header (heap example_pool 0)))) = 20"
    by (simp add: example_pool_def example_payload_def hex20 del: Buffer_from_hex.simps)
  have h4: "(40::int) = Target_fromDifficulty example_env
      (Target_calculateDifficulty example_env 100500 500 ((2 ^ 256 - 1) div 20))"
    by (simp add: example_env_def)
  have h5: "(40::int) \<noteq> fromBytes (Buffer_from_hex (hdr_target (header (heap example_pool 0))))"
    unfolding t by simp
  from C5_retarget_publishes_mutated_template [OF example_pool_reachable [symmetric] h1 h2 h3 h4 h5]
  show ?thesis by (auto simp: t n)
qed

section \<open>Retargeting to the same target\<close>

text \<open>
  C6.  With the head of the chain known and the current work in the cache: when
  the target that \<^verbatim>\<open>recalculateTarget\<close> computes is the number read from
  the header target of the cached template, the call returns and has written
  two debug lines and nothing else: no work is broadcast, and counter, store,
  work cache and deduper, as every other field of the pool, are as before.
\<close>

theorem C6_retarget_same_target_is_noop:
  assumes "currentHeadTimestamp p = Some headTimestamp"
    and "currentHeadDifficulty p = Some headDifficulty"
    and "lru_get (miningRequestBlocks p) (nextMiningRequestId p - 1) = Some latestBlock"
    and "Target_fromDifficulty e (Target_calculateDifficulty e newTime headTimestamp headDifficulty) =
         fromBytes (Buffer_from_hex (hdr_target (header (heap p latestBlock))))"
  shows "\<exists>p'. recalculateTarget e newTime p = Returned p' \<and>
     work_broadcast (new_effects p p') = [] \<and>
     new_effects p p' = [Log Debug RecalculatingTarget, Log Debug (SameTarget
        (fromBytes (Buffer_from_hex (hdr_target (header (heap p latestBlock))))))] \<and>
     nextMiningRequestId p' = nextMiningRequestId p \<and>
     heap p' = heap p \<and>
     miningRequestBlocks p' = miningRequestBlocks p \<and>
     recentSubmissions p' = recentSubmissions p \<and>
     p'\<lparr>effects := effects p\<rparr> = p"
  using assms unfolding recalculateTarget_cases
  by (simp add: emit_def new_effects_def work_broadcast_def)

text \<open>On the example pool, 10 seconds after the head of the chain.\<close>

theorem C6_retarget_same_target_is_noop_witness:
  "\<exists>p'. recalculateTarget example_env 10500 example_pool = Returned p' \<and>
     work_broadcast (new_effects example_pool p') = [] \<and>
     new_effects example_pool p' = [Log Debug RecalculatingTarget, Log Debug (SameTarget 20)] \<and>
     nextMiningRequestId p' = 1 \<and>
     heap p' = heap example_pool \<and>
     miningRequestBlocks p' = miningRequestBlocks example_pool \<and>
     recentSubmissions p' = recentSubmissions example_pool"
proof -
  have h1: "currentHeadTimestamp example_pool = Some 500"
    and h2: "currentHeadDifficulty example_pool = Some ((2 ^ 256 - 1) div 20)"
    and h3: "lru_get (miningRequestBlocks example_pool) (nextMiningRequestId example_pool - 1) = Some 0"
    and n: "nextMiningRequestId example_pool = 1"
    by (simp_all add: example_pool_def lru_get_def)
  have t: "fromBytes (Buffer_from_hex (hdr_target (header (heap example_pool 0)))) = 20"
    by (simp add: example_pool_def example_payload_def hex20 del: Buffer_from_hex.simps)
  have h4: "Target_fromDifficulty example_env
      (Target_calculateDifficulty example_env 10500 500 ((2 ^ 256 - 1) div 20)) =
     fromBytes (Buffer_from_hex (hdr_target (header (heap example_pool 0))))"
    unfolding t by (simp add: example_env_def)
  show ?thesis
    using C6_retarget_same_target_is_noop [OF h1 h2 h3 h4] by (auto simp: t n)
qed

section \<open>The request counter\<close>

text \<open>
  C7.  The constructor sets \<^verbatim>\<open>nextMiningRequestId\<close> to 0.  After any
  history of a constructed pool the ids of the work broadcast so far are
  \<open>0, 1, 2, \<dots>\<close> in this order, and the counter is their number: it is 0
  only as long as no work has been published.  Along any history of any pool
  the counter never decreases.  Every operation that publishes work (a payload
  with \<^verbatim>\<open>previousBlockInfo\<close>, a retarget to a new target) adds exactly one
  to the counter and broadcasts one piece of work under the id the counter had;
  every other operation leaves the counter alone and broadcasts nothing.
  \<^verbatim>\<open>distributeNewBlock\<close> itself, on a pool that knows the head of the chain,
  adds one and broadcasts the template under the old value.  \<^verbatim>\<open>stop\<close>, and
  \<^verbatim>\<open>stop\<close> followed by \<^verbatim>\<open>start\<close>, leave the counter alone.  (The
  counter is a JavaScript number and the model an integer; they agree below
  \<open>2 ^ 53\<close>.)
\<close>

theorem C7_request_counter_monotone:
  "nextMiningRequestId (MiningPool_new e cfg) = 0 \<and>
   map fst (work_broadcast (effects (run e (MiningPool_new e cfg) ops))) =
     map int [0..<nat (nextMiningRequestId (run e (MiningPool_new e cfg) ops))] \<and>
   0 \<le> nextMiningRequestId (run e (MiningPool_new e cfg) ops) \<and>
   nextMiningRequestId (run e p ops) \<le> nextMiningRequestId (run e p (ops @ later)) \<and>
   nextMiningRequestId (step e p op) =
     nextMiningRequestId p + (if publishes_work e p op then 1 else 0) \<and>
   map fst (work_broadcast (new_effects p (step e p op))) =
     (if publishes_work e p op then [nextMiningRequestId p] else []) \<and>
   (currentHeadTimestamp p \<noteq> None \<and> currentHeadDifficulty p \<noteq> None \<longrightarrow>
      nextMiningRequestId (state_of (distributeNewBlock newBlock p)) = nextMiningRequestId p + 1 \<and>
      work_broadcast (new_effects p (state_of (distributeNewBlock newBlock p))) =
        [(nextMiningRequestId p, heap p newBlock)]) \<and>
   nextMiningRequestId (stop p) = nextMiningRequestId p \<and>
   nextMiningRequestId (start (stop p)) = nextMiningRequestId p"
proof -
  have a: "nextMiningRequestId (MiningPool_new e cfg) = 0" by (simp add: MiningPool_new_def)
  have b: "ids_in_order (run e (MiningPool_new e cfg) ops)" by (rule run_ids [OF new_ids])
  have c: "nextMiningRequestId (run e p ops) \<le> nextMiningRequestId (run e p (ops @ later))"
    unfolding run_append by (rule run_mono)
  have d: "nextMiningRequestId (stop p) = nextMiningRequestId p"
    using stop_frame [of p] by (simp add: same_work_def)
  have f: "nextMiningRequestId (start (stop p)) = nextMiningRequestId p"
    using start_frame [of "stop p"] d by (simp add: same_work_def)
  have g: "currentHeadTimestamp p \<noteq> None \<and> currentHeadDifficulty p \<noteq> None \<longrightarrow>
      nextMiningRequestId (state_of (distributeNewBlock newBlock p)) = nextMiningRequestId p + 1 \<and>
      work_broadcast (new_effects p (state_of (distributeNewBlock newBlock p))) =
        [(nextMiningRequestId p, heap p newBlock)]"
    by (auto simp: distributeNewBlock_Returned stratum_newWork_def emit_def new_effects_def
        work_broadcast_def)
  show ?thesis
    using a b c d f g step_exact [of e p op] by (simp add: ids_in_order_def)
qed

text \<open>
  On the example pool: \<^verbatim>\<open>start\<close> leaves the counter of the new pool at 0;
  a payload, a retarget after 100 seconds and \<^verbatim>\<open>distributeNewBlock\<close> each
  add one; a retarget after 10 seconds, which finds the same target, adds
  nothing.
\<close>

theorem C7_request_counter_monotone_witness:
  "nextMiningRequestId (MiningPool_new example_env example_config) = 0 \<and>
   nextMiningRequestId (step example_env (MiningPool_new example_env example_config) Op_start) = 0 \<and>
   publishes_work example_env example_pool (Op_payload example_payload) \<and>
   nextMiningRequestId (step example_env example_pool (Op_payload example_payload)) =
     nextMiningRequestId example_pool + 1 \<and>
   map fst (work_broadcast (new_effects example_pool
     (step example_env example_pool (Op_payload example_payload)))) =
     [nextMiningRequestId example_pool] \<and>
   publishes_work example_env example_pool (Op_recalculateTarget 100500) \<and>
   nextMiningRequestId (step example_env example_pool (Op_recalculateTarget 100500)) =
     nextMiningRequestId example_pool + 1 \<and>
   \<not> publishes_work example_env example_pool (Op_recalculateTarget 10500) \<and>
   nextMiningRequestId (step example_env example_pool (Op_recalculateTarget 10500)) =
     nextMiningRequestId example_pool \<and>
   nextMiningRequestId (state_of (distributeNewBlock 0 example_pool)) =
     nextMiningRequestId example_pool + 1 \<and>
   work_broadcast (new_effects example_pool (state_of (distributeNewBlock 0 example_pool))) =
     [(nextMiningRequestId example_pool, heap example_pool 0)] \<and>
   map fst (work_broadcast (effects (run example_env (MiningPool_new example_env example_config)
     [Op_start, Op_tryConnect True, Op_payload example_payload]))) =
     map int [0..<nat (nextMiningRequestId (run example_env
       (MiningPool_new example_env example_config)
       [Op_start, Op_tryConnect True, Op_payload example_payload]))] \<and>
   nextMiningRequestId (start (stop example_pool)) = nextMiningRequestId example_pool"
proof -
  have hd: "currentHeadTimestamp example_pool \<noteq> None \<and> currentHeadDifficulty example_pool \<noteq> None"
    by (simp add: example_pool_def)
  have t: "fromBytes (Buffer_from_hex (hdr_target (header (heap example_pool 0)))) = 20"
    by (simp add: example_pool_def example_payload_def hex20 del: Buffer_from_hex.simps)
  have f: "currentHeadTimestamp example_pool = Some 500"
    "currentHeadDifficulty example_pool = Some ((2 ^ 256 - 1) div 20)"
    "lru_get (miningRequestBlocks example_pool) (nextMiningRequestId example_pool - 1) = Some 0"
    by (simp_all add: example_pool_def lru_get_def)
  have a: "\<not> publishes_work example_env (MiningPool_new example_env example_config) Op_start"
    by (simp add: publishes_work_def)
  have b: "publishes_work example_env example_pool (Op_payload example_payload)"
    by (simp add: publishes_work_def example_payload_def)
  have c: "publishes_work example_env example_pool (Op_recalculateTarget 100500)"
    by (simp add: publishes_work_def f t) (simp add: example_env_def)
  have d: "\<not> publishes_work example_env example_pool (Op_recalculateTarget 10500)"
    by (simp add: publishes_work_def f t) (simp add: example_env_def)
  show ?thesis
    using C7_request_counter_monotone [of example_env example_config
        "[Op_start, Op_tryConnect True, Op_payload example_payload]"
        "MiningPool_new example_env example_config" "[]" Op_start 0]
      C7_request_counter_monotone [of example_env example_config "[]" example_pool "[]"
        "Op_payload example_payload" 0]
      C7_request_counter_monotone [of example_env example_config "[]" example_pool "[]"
        "Op_recalculateTarget 100500" 0]
      C7_request_counter_monotone [of example_env example_config "[]" example_pool "[]"
        "Op_recalculateTarget 10500" 0]
      a b c d hd
    by simp
qed

section \<open>Outages of the node\<close>

text \<open>
  C8, as the code has it.  On a started pool that has not warned yet (after
  \<^verbatim>\<open>start\<close> on a new pool, or after a successful connection): over an outage
  of \<open>n + 1\<close> failed answers there is exactly one warning, every failed answer
  sets the retry timer to 5000 milliseconds, so \<open>n + 1\<close> timers in all, and
  the failed answers notify no webhook.  \<^verbatim>\<open>poolDisconnected\<close> comes from the
  close signal of the node: an outage that begins with \<^verbatim>\<open>onDisconnectRpc\<close>
  has exactly one such notification, one warning and \<open>n + 1\<close> timers.
\<close>

theorem C8_outage_one_warning_retry_every_5s:
  assumes "started p" and "\<not> connectWarned p"
  shows "logged Warn (new_effects p (run e p (outage n))) = [FailedToConnect] \<and>
     count_list (new_effects p (run e p (outage n))) (SetTimeout_startConnectingRpc 5000) = Suc n \<and>
     webhooks_notified (new_effects p (run e p (outage n))) = [] \<and>
     connectTimeout (run e p (outage n)) \<and>
     logged Warn (new_effects p (run e p (Op_onDisconnectRpc # outage n))) = [FailedToConnect] \<and>
     count_list (new_effects p (run e p (Op_onDisconnectRpc # outage n)))
       (SetTimeout_startConnectingRpc 5000) = Suc n \<and>
     webhooks_notified (new_effects p (run e p (Op_onDisconnectRpc # outage n))) = [PoolDisconnected]"
proof -
  from outage_effects [OF assms, of e n] obtain es where
    es: "effects (run e p (outage n)) = effects p @ es" "connectTimeout (run e p (outage n))"
      "logged Warn es = [FailedToConnect]" "webhooks_notified es = []"
      "count_list es (SetTimeout_startConnectingRpc 5000) = Suc n"
    by blast
  let ?d = "onDisconnectRpc p"
  have d: "started ?d" "\<not> connectWarned ?d"
    "effects ?d = effects p @ [Stratum_waitForWork, Log Info DisconnectedFromNode,
       Webhooks PoolDisconnected, Rpc_tryConnect]"
    using assms by (simp_all add: onDisconnectRpc_def startConnectingRpc_call_def emit_def)
  from outage_effects [OF d(1,2), of e n] obtain es' where
    es': "effects (run e ?d (outage n)) = effects ?d @ es'"
      "logged Warn es' = [FailedToConnect]" "webhooks_notified es' = []"
      "count_list es' (SetTimeout_startConnectingRpc 5000) = Suc n"
    by blast
  have r: "run e p (Op_onDisconnectRpc # outage n) = run e ?d (outage n)"
    by (simp add: run_def)
  have a: "new_effects p (run e p (outage n)) = es"
    by (simp add: new_effects_def es(1))
  have b: "new_effects p (run e p (Op_onDisconnectRpc # outage n)) =
      [Stratum_waitForWork, Log Info DisconnectedFromNode, Webhooks PoolDisconnected,
       Rpc_tryConnect] @ es'"
    by (simp add: new_effects_def r es'(1) d(3))
  show ?thesis
    unfolding a b logged_append webhooks_notified_append
    using es es' by (simp add: logged_def webhooks_notified_def)
qed

text \<open>A new pool is started and the node cannot be reached three times in a row.\<close>

theorem C8_outage_one_warning_retry_every_5s_witness:
  "started (start (MiningPool_new example_env example_config)) \<and>
   logged Warn (new_effects (start (MiningPool_new example_env example_config))
      (run example_env (start (MiningPool_new example_env example_config)) (outage 2))) =
     [FailedToConnect] \<and>
   count_list (new_effects (start (MiningPool_new example_env example_config))
      (run example_env (start (MiningPool_new example_env example_config)) (outage 2)))
     (SetTimeout_startConnectingRpc 5000) = 3 \<and>
   webhooks_notified (new_effects (start (MiningPool_new example_env example_config))
      (run example_env (start (MiningPool_new example_env example_config)) (outage 2))) = [] \<and>
   webhooks_notified (new_effects (start (MiningPool_new example_env example_config))
      (run example_env (start (MiningPool_new example_env example_config))
         (Op_onDisconnectRpc # outage 2))) = [PoolDisconnected]"
proof -
  let ?p = "start (MiningPool_new example_env example_config)"
  have h1: "started ?p" and h2: "\<not> connectWarned ?p"
    by (simp_all add: start_def MiningPool_new_def startConnectingRpc_call_def emit_def Let_def)
  show ?thesis
    using C8_outage_one_warning_retry_every_5s [OF h1 h2, of example_env 2] h1 by simp
qed

text \<open>
  The specification asks for one \<^verbatim>\<open>poolDisconnected\<close> in every outage.  A new pool is started and the node cannot be reached twice: one
  warning, two retry timers, and no \<^verbatim>\<open>poolDisconnected\<close>.
\<close>

theorem C8_outage_one_warning_retry_every_5s_counterexample:
  "count_list (webhooks_notified (effects (run example_env
      (MiningPool_new example_env example_config) (Op_start # outage 1)))) PoolDisconnected = 0 \<and>
   count_list (webhooks_notified (effects (run example_env
      (MiningPool_new example_env example_config) (Op_start # outage 1)))) PoolDisconnected \<noteq> 1 \<and>
   logged Warn (effects (run example_env
      (MiningPool_new example_env example_config) (Op_start # outage 1))) = [FailedToConnect] \<and>
   count_list (effects (run example_env
      (MiningPool_new example_env example_config) (Op_start # outage 1)))
     (SetTimeout_startConnectingRpc 5000) = 2"
proof -
  let ?p = "start (MiningPool_new example_env example_config)"
  have h1: "started ?p" and h2: "\<not> connectWarned ?p"
    and e: "effects ?p = [Shares_start, Log Info StartingStratum, Stratum_start,
        Log Info ConnectingToNode, Rpc_onClose_on, Rpc_tryConnect]"
    by (simp_all add: start_def MiningPool_new_def startConnectingRpc_call_def emit_def Let_def
        example_config_def)
  from outage_effects [OF h1 h2, of example_env 1]
  obtain es where es: "effects (run example_env ?p (outage 1)) = effects ?p @ es"
    "logged Warn es = [FailedToConnect]" "webhooks_notified es = []"
    "count_list es (SetTimeout_startConnectingRpc 5000) = Suc 1"
    by blast
  have r: "run example_env (MiningPool_new example_env example_config) (Op_start # outage 1) =
      run example_env ?p (outage 1)"
    by (simp add: run_def)
  show ?thesis
    unfolding r es(1) e
    using es(2-4) by (simp add: logged_append webhooks_notified_append)
      (simp add: logged_def webhooks_notified_def)
qed

section \<open>The estimate of the hash rate\<close>

text \<open>
  C9, as the code has it.  Let every operation on doubles have a relative error
  of at most \<open>u < 1\<close> (for doubles in their normal range \<open>u = 2 ^ -53\<close>;
  \<open>u = 0\<close> is exact arithmetic), the share rate be non-negative and the
  difficulty non-negative.  Then \<^verbatim>\<open>estimateHashRate\<close> is non-negative, at most
  \<open>(1 + u) ^ 3\<close> times rate times difficulty, and at least
  \<open>(1 - u) ^ 2\<close> times \<open>((1 - u) * rate - 1 / 1000000)\<close> times difficulty:
  it is the rate that is kept to six decimal digits, so the estimate can fall
  short of rate times difficulty by the millionth part of the difficulty.  The
  scaled rate is floored to an integer and multiplied with the difficulty as an
  integer, exactly; only then is the product rounded to a double and divided.
\<close>

theorem C9_estimateHashRate_six_digits_of_the_rate:
  assumes u: "0 \<le> u" "u < 1"
    and rounding: "\<forall>x. \<bar>rnd e x - x\<bar> \<le> u * \<bar>x\<bar>"
    and rate: "0 \<le> shareRate e address"
    and diff: "0 \<le> difficulty p"
  shows "0 \<le> estimateHashRate e p address \<and>
     estimateHashRate e p address \<le>
       (1 + u) ^ 3 * (shareRate e address * of_int (difficulty p)) \<and>
     (1 - u) ^ 2 * (((1 - u) * shareRate e address - 1 / 1000000) * of_int (difficulty p))
       \<le> estimateHashRate e p address \<and>
     estimateHashRate e p address =
       rnd e (rnd e (of_int \<lfloor>rnd e (shareRate e address * 1000000)\<rfloor> * of_int (difficulty p))
              / 1000000)"
proof -
  define r where "r = shareRate e address"
  define d :: real where "d = of_int (difficulty p)"
  define x where "x = r * 1000000"
  define a where "a = rnd e x"
  define N :: real where "N = of_int \<lfloor>a\<rfloor>"
  define P where "P = N * d"
  define Q where "Q = rnd e P"
  define R where "R = rnd e (Q / 1000000)"
  have est: "estimateHashRate e p address = R"
    by (simp add: estimateHashRate_def decimalPrecision_def R_def Q_def P_def N_def a_def x_def
        r_def d_def)
  have u1: "0 \<le> 1 - u" "0 \<le> 1 + u" using u by simp_all
  have r0: "0 \<le> r" using rate by (simp add: r_def)
  have d0: "0 \<le> d" using diff by (simp add: d_def)
  have x0: "0 \<le> x" using r0 by (simp add: x_def)
  have a_lo: "(1 - u) * x \<le> a" and a_hi: "a \<le> (1 + u) * x"
    unfolding a_def using rnd_bounds [OF rounding x0] by simp_all
  have a0: "0 \<le> a" using a_lo u1 x0 by (meson mult_nonneg_nonneg order_trans)
  have N_hi: "N \<le> a" and N0: "0 \<le> N"
    using a0 by (simp_all add: N_def)
  have N_lo: "a - 1 \<le> N" unfolding N_def by linarith
  have P0: "0 \<le> P" using N0 d0 by (simp add: P_def)
  have Q_lo: "(1 - u) * P \<le> Q" and Q_hi: "Q \<le> (1 + u) * P"
    unfolding Q_def using rnd_bounds [OF rounding P0] by simp_all
  have Q0: "0 \<le> Q" using Q_lo u1 P0 by (meson mult_nonneg_nonneg order_trans)
  then have Qd0: "0 \<le> Q / 1000000" by simp
  have R_lo: "(1 - u) * (Q / 1000000) \<le> R" and R_hi: "R \<le> (1 + u) * (Q / 1000000)"
    unfolding R_def using rnd_bounds [OF rounding Qd0] by simp_all
  have R0: "0 \<le> R" using R_lo u1 Qd0 by (meson mult_nonneg_nonneg order_trans)
  have P_hi: "P \<le> (1 + u) * x * d"
  proof -
    have "N * d \<le> a * d" using N_hi d0 by (rule mult_right_mono)
    also have "\<dots> \<le> ((1 + u) * x) * d" using a_hi d0 by (rule mult_right_mono)
    finally show ?thesis by (simp add: P_def)
  qed
  have P_lo: "((1 - u) * x - 1) * d \<le> P"
  proof -
    have "(1 - u) * x - 1 \<le> a - 1" using a_lo by simp
    also have "\<dots> \<le> N" by (rule N_lo)
    finally have "((1 - u) * x - 1) * d \<le> N * d" using d0 by (rule mult_right_mono)
    then show ?thesis by (simp add: P_def)
  qed
  have upper: "R \<le> (1 + u) ^ 3 * (r * d)"
  proof -
    have "Q \<le> (1 + u) * ((1 + u) * x * d)"
      using Q_hi mult_left_mono [OF P_hi u1(2)] by linarith
    then have "Q / 1000000 \<le> (1 + u) * ((1 + u) * x * d) / 1000000"
      by (simp add: divide_right_mono)
    then have "(1 + u) * (Q / 1000000) \<le> (1 + u) * ((1 + u) * ((1 + u) * x * d) / 1000000)"
      using u1(2) by (rule mult_left_mono)
    with R_hi have "R \<le> (1 + u) * ((1 + u) * ((1 + u) * x * d) / 1000000)" by linarith
    also have "\<dots> = (1 + u) ^ 3 * (r * d)"
      by (simp add: x_def power3_eq_cube algebra_simps)
    finally show ?thesis .
  qed
  have lower: "(1 - u) ^ 2 * (((1 - u) * r - 1 / 1000000) * d) \<le> R"
  proof -
    define L where "L = ((1 - u) * r - 1 / 1000000) * d"
    have "((1 - u) * x - 1) / 1000000 = (1 - u) * r - 1 / 1000000"
      by (simp add: x_def diff_divide_distrib)
    then have "((1 - u) * x - 1) * d / 1000000 = L"
      by (simp add: L_def)
    moreover have "((1 - u) * x - 1) * d / 1000000 \<le> P / 1000000"
      using P_lo by (simp add: divide_right_mono)
    ultimately have 1: "L \<le> P / 1000000" by simp
    have "(1 - u) * P / 1000000 \<le> Q / 1000000"
      using Q_lo by (simp add: divide_right_mono)
    then have 2: "(1 - u) * (P / 1000000) \<le> Q / 1000000" by simp
    have "(1 - u) * L \<le> (1 - u) * (P / 1000000)"
      using 1 u1(1) by (rule mult_left_mono)
    with 2 have "(1 - u) * L \<le> Q / 1000000" by linarith
    then have "(1 - u) * ((1 - u) * L) \<le> (1 - u) * (Q / 1000000)"
      using u1(1) by (rule mult_left_mono)
    with R_lo have "(1 - u) * ((1 - u) * L) \<le> R" by linarith
    then show ?thesis by (simp add: L_def power2_eq_square)
  qed
  have shape: "R = rnd e (rnd e (of_int \<lfloor>rnd e (r * 1000000)\<rfloor> * d) / 1000000)"
    by (simp add: R_def Q_def P_def N_def a_def x_def)
  show ?thesis
    unfolding est using R0 upper lower shape by (simp add: r_def d_def)
qed

text \<open>With exact arithmetic on the example pool: rate 1/2, difficulty 1.\<close>

theorem C9_estimateHashRate_six_digits_of_the_rate_witness:
  "0 \<le> estimateHashRate example_env example_pool None \<and>
   estimateHashRate example_env example_pool None = 1 / 2 \<and>
   shareRate example_env None = 1 / 2 \<and> difficulty example_pool = 1"
proof -
  have r: "\<forall>x. \<bar>rnd example_env x - x\<bar> \<le> 0 * \<bar>x\<bar>" by (simp add: example_env_def)
  have s: "0 \<le> shareRate example_env None" by (simp add: example_env_def)
  have d: "0 \<le> difficulty example_pool" by (simp add: example_pool_def)
  have f: "\<lfloor>(1000000::real) / 2\<rfloor> = 500000" by simp
  show ?thesis
    using C9_estimateHashRate_six_digits_of_the_rate [OF _ _ r s d]
    by (simp add: example_env_def example_pool_def f)
qed

text \<open>
  The specification asks for the estimate to equal rate times difficulty to
  six decimal digits.  With a rate of \<open>1 / 2 ^ 21\<close> and a
  difficulty of \<open>2 ^ 21\<close> the product is 1 and the estimate is 0.
\<close>

theorem C9_estimateHashRate_six_digits_of_the_rate_counterexample:
  "estimateHashRate slow_miner_env hard_pool None = 0 \<and>
   shareRate slow_miner_env None * of_int (difficulty hard_pool) = 1 \<and>
   \<not> \<bar>estimateHashRate slow_miner_env hard_pool None -
       shareRate slow_miner_env None * of_int (difficulty hard_pool)\<bar> \<le> 1 / 1000000"
proof -
  have f: "\<lfloor>(1000000::real) / 2097152\<rfloor> = 0" by simp
  have a: "estimateHashRate slow_miner_env hard_pool None = 0"
    by (simp add: estimateHashRate_def slow_miner_env_def hard_pool_def example_env_def
        decimalPrecision_def MiningPool_new_def example_config_def f)
  have b: "shareRate slow_miner_env None * of_int (difficulty hard_pool) = 1"
    by (simp add: slow_miner_env_def hard_pool_def example_env_def MiningPool_new_def
        example_config_def)
  show ?thesis unfolding a b by simp
qed

section \<open>A submission before the first work\<close>

text \<open>
  C10.  On a pool that the constructor and the operations have produced and
  that has not published work yet (the counter is 0), a submission for the
  mining request id \<open>-1\<close> by a client with address and graffiti passes the
  staleness check, finds nothing in the cache (no id in the cache is negative)
  and returns with one warning: no share, no block, no punishment, and no field
  of the pool but the effects has changed.
\<close>

theorem C10_submission_before_first_work:
  assumes "p = run e (MiningPool_new e cfg) ops"
    and "nextMiningRequestId p = 0"
    and "publicAddress client \<noteq> None" and "graffiti client \<noteq> None"
  shows "submitWork e client (- 1) randomness p =
       Returned (emit [Log Warn (InvalidMiningRequest (client_id client) (- 1))] p) \<and>
     lru_get (miningRequestBlocks p) (- 1) = None \<and>
     shares_credited (new_effects p (state_of (submitWork e client (- 1) randomness p))) = [] \<and>
     blocks_submitted (new_effects p (state_of (submitWork e client (- 1) randomness p))) = [] \<and>
     clients_punished (new_effects p (state_of (submitWork e client (- 1) randomness p))) = [] \<and>
     logged Warn (new_effects p (state_of (submitWork e client (- 1) randomness p))) =
       [InvalidMiningRequest (client_id client) (- 1)] \<and>
     (state_of (submitWork e client (- 1) randomness p))\<lparr>effects := effects p\<rparr> = p"
proof -
  have "pool_inv p" using assms(1) by (simp add: reachable_inv)
  then have none: "lru_get (miningRequestBlocks p) (- 1) = None"
    by (rule pool_inv_no_negative) simp
  then have "submitWork e client (- 1) randomness p =
       Returned (emit [Log Warn (InvalidMiningRequest (client_id client) (- 1))] p)"
    using assms(2-4) by (auto simp: submitWork_def)
  then show ?thesis
    using none
    by (simp add: emit_def new_effects_def shares_credited_def blocks_submitted_def
        clients_punished_def logged_def)
qed

text \<open>A new pool is started and the node cannot be reached; then the submission.\<close>

theorem C10_submission_before_first_work_witness:
  "nextMiningRequestId (run example_env (MiningPool_new example_env example_config)
      [Op_start, Op_tryConnect False]) = 0 \<and>
   submitWork example_env example_client (- 1) ''01''
      (run example_env (MiningPool_new example_env example_config) [Op_start, Op_tryConnect False]) =
     Returned (emit [Log Warn (InvalidMiningRequest 7 (- 1))]
      (run example_env (MiningPool_new example_env example_config) [Op_start, Op_tryConnect False]))"
proof -
  let ?p = "run example_env (MiningPool_new example_env example_config) [Op_start, Op_tryConnect False]"
  have n: "nextMiningRequestId ?p = 0"
    using start_frame [of "MiningPool_new example_env example_config"]
      resume_frame [of "start (MiningPool_new example_env example_config)" False]
    by (simp add: run_def same_work_def MiningPool_new_def)
  have c: "publicAddress example_client \<noteq> None" "graffiti example_client \<noteq> None"
    "client_id example_client = 7"
    by (simp_all add: example_client_def)
  show ?thesis
    using C10_submission_before_first_work [OF refl n c(1,2), of "''01''"] n c(3) by simp
qed

end
